theory Spec2Isabelle
  imports Main "HOL-Library.Word" "HOL-Library.Signed_Division"
begin

section \<open>The MAX17048 fuel gauge driver (hackberrypi-max17048.c)\<close>

text \<open>
  The driver is a Linux power-supply driver written in C. Its integer types are modelled
  as follows: \<open>u32\<close> is \<open>32 word\<close> (arithmetic wraps), \<open>int16_t\<close> is \<open>16 word\<close> read with
  \<open>sint\<close>, and the C types \<open>int\<close>, \<open>int32_t\<close> and \<open>s64\<close> are HOL integers on which every
  cast and every arithmetic result is wrapped to its width by \<open>s32\<close> or \<open>s64\<close>. Division
  of signed values truncates towards zero (\<open>sdiv\<close>), as C's does.
\<close>

subsection \<open>C integer conversions\<close>

definition s32 :: "int \<Rightarrow> int" where
  "s32 x = signed_take_bit 31 x"

definition s64 :: "int \<Rightarrow> int" where
  "s64 x = signed_take_bit 63 x"

text \<open>\<open>div_s64(s64 dividend, s32 divisor)\<close> of linux/math64.h: signed 64-bit by 32-bit
  division, truncating. The driver calls it with the divisors 25000 and 100 and with 13
  times a rate whose magnitude is at least 11, never with 0.\<close>

definition div_s64 :: "int \<Rightarrow> int \<Rightarrow> int" where
  "div_s64 dividend divisor = s64 (s64 dividend sdiv s32 divisor)"

text \<open>\<open>div_u64(u64 dividend, u32 divisor)\<close> of linux/math64.h.\<close>

definition div_u64 :: "64 word \<Rightarrow> 32 word \<Rightarrow> 64 word" where
  "div_u64 dividend divisor = dividend div ucast divisor"

subsection \<open>Register addresses, scale factors and thresholds\<close>

definition MAX17048_VCELL_REG :: "8 word" where "MAX17048_VCELL_REG = 0x02"
definition MAX17048_SOC_REG :: "8 word" where "MAX17048_SOC_REG = 0x04"
definition MAX17048_CONFIG_REG :: "8 word" where "MAX17048_CONFIG_REG = 0x0C"
definition MAX17048_VALRT_REG :: "8 word" where "MAX17048_VALRT_REG = 0x14"
definition MAX17048_CRATE_REG :: "8 word" where "MAX17048_CRATE_REG = 0x16"
definition MAX17048_STATUS_REG :: "8 word" where "MAX17048_STATUS_REG = 0x1A"

definition MAX17048_VCELL_LSB_NUM :: "32 word" where "MAX17048_VCELL_LSB_NUM = 625"
definition MAX17048_VCELL_LSB_DEN :: "32 word" where "MAX17048_VCELL_LSB_DEN = 8"
definition MAX17048_SOC_LSB_INV :: "32 word" where "MAX17048_SOC_LSB_INV = 256"
definition MAX17048_CRATE_LSB_NUM :: int where "MAX17048_CRATE_LSB_NUM = 52"
definition MAX17048_CRATE_LSB_DEN :: int where "MAX17048_CRATE_LSB_DEN = 25000"
definition MAX17048_CRATE_NOISE_THR :: int where "MAX17048_CRATE_NOISE_THR = 4"
definition MAX17048_FULL_SOC_THR :: int where "MAX17048_FULL_SOC_THR = 95"
definition MAX17048_TTE_CONST_NUM :: int where "MAX17048_TTE_CONST_NUM = 225000"
definition MAX17048_TTE_CONST_DEN :: int where "MAX17048_TTE_CONST_DEN = 13"
definition MAX17048_TTE_RATE_THR :: int where "MAX17048_TTE_RATE_THR = 10"
definition MAX17048_CAP_FULL_THR :: int where "MAX17048_CAP_FULL_THR = 99"
definition MAX17048_CAP_CRIT_THR :: int where "MAX17048_CAP_CRIT_THR = 5"
definition MAX17048_CAP_LOW_THR :: int where "MAX17048_CAP_LOW_THR = 15"
definition MAX17048_DEFAULT_CAP_UAH :: "32 word" where "MAX17048_DEFAULT_CAP_UAH = 5000000"
definition MAX17048_MAX_CAP_UAH :: "32 word" where "MAX17048_MAX_CAP_UAH = 10000000"
definition MAX17048_MAX_ENERGY_UWH :: "32 word" where "MAX17048_MAX_ENERGY_UWH = 18500000"
definition MAX17048_TTE_TUNING_FACTOR :: int where "MAX17048_TTE_TUNING_FACTOR = 8"

text \<open>Error numbers of the kernel's errno headers, which the driver uses by name.\<close>

definition EIO :: int where "EIO = 5"
definition ENOMEM :: int where "ENOMEM = 12"
definition EINVAL :: int where "EINVAL = 22"
definition ENODATA :: int where "ENODATA = 61"

subsection \<open>The register transport\<close>

text \<open>
  \<open>regmap_read\<close> belongs to the kernel, not to the driver. The chip behind it is an
  environment whose registers may change between two transfers, so the regmap is a
  script: \<open>replies m n reg\<close> is what the transfer number \<open>n\<close> returns when it addresses
  \<open>reg\<close>, a pair of the return code (0 for success, an error number otherwise) and the
  value stored through the \<open>val\<close> pointer; \<open>transfers\<close> counts the transfers made so far.
  The driver never looks at the value of a transfer whose return code is not 0.
\<close>

record i2c_regmap =
  replies :: "nat \<Rightarrow> 8 word \<Rightarrow> int \<times> 32 word"
  transfers :: nat

definition regmap_read :: "i2c_regmap \<Rightarrow> 8 word \<Rightarrow> (int \<times> 32 word) \<times> i2c_regmap" where
  "regmap_read m reg = (replies m (transfers m) reg, m\<lparr>transfers := Suc (transfers m)\<rparr>)"

subsection \<open>Driver data\<close>

text \<open>\<open>struct max17048\<close>, without the handles of kernel objects (client, power supplies,
  work item), which carry no data of the driver's own.\<close>

record max17048 =
  regmap :: i2c_regmap
  charge_full_design_uah :: "32 word"
  energy_full_design_uwh :: "32 word"
  delay :: nat

definition max17048_read_reg :: "max17048 \<Rightarrow> 8 word \<Rightarrow> (int \<times> 32 word) \<times> max17048" where
  "max17048_read_reg battery reg =
     (let (r, m) = regmap_read (regmap battery) reg in (r, battery\<lparr>regmap := m\<rparr>))"

subsection \<open>Raw telemetry\<close>

text \<open>\<open>max17048_get_vcell\<close> returns the voltage or the error code in one \<open>int\<close>; the
  product and the quotient are computed in \<open>u32\<close>.\<close>

definition max17048_get_vcell :: "max17048 \<Rightarrow> int \<times> max17048" where
  "max17048_get_vcell battery =
     (let ((ret, vcell), battery') = max17048_read_reg battery MAX17048_VCELL_REG in
      if ret \<noteq> 0 then (ret, battery')
      else (sint (vcell * MAX17048_VCELL_LSB_NUM div MAX17048_VCELL_LSB_DEN), battery'))"

definition max17048_get_soc :: "max17048 \<Rightarrow> int \<times> max17048" where
  "max17048_get_soc battery =
     (let ((ret, soc), battery') = max17048_read_reg battery MAX17048_SOC_REG in
      if ret \<noteq> 0 then (ret, battery')
      else
        let soc = soc div MAX17048_SOC_LSB_INV;
            soc = (if soc > 100 then 100 else soc)
        in (sint soc, battery'))"

text \<open>\<open>max17048_get_crate\<close> returns its code and stores the rate through a pointer:
  \<open>Inl\<close> is a non-zero return code, \<open>Inr\<close> the stored \<open>int16_t\<close> with return code 0.\<close>

definition max17048_get_crate :: "max17048 \<Rightarrow> (int + 16 word) \<times> max17048" where
  "max17048_get_crate battery =
     (let ((ret, crate_raw), battery') = max17048_read_reg battery MAX17048_CRATE_REG in
      if ret \<noteq> 0 then (Inl ret, battery')
      else (Inr (ucast crate_raw), battery'))"

subsection \<open>Derived quantities\<close>

text \<open>\<open>max17048_get_current\<close>, \<open>max17048_get_time_to_empty\<close> and
  \<open>max17048_get_time_to_full\<close> return a code and store their result through a pointer:
  \<open>Inl\<close> is a non-zero return code, \<open>Inr\<close> the stored \<open>int\<close> with return code 0.\<close>

definition max17048_get_current :: "max17048 \<Rightarrow> (int + int) \<times> max17048" where
  "max17048_get_current battery =
     (case max17048_get_crate battery of
        (Inl ret, battery') \<Rightarrow> (Inl ret, battery')
      | (Inr crate, battery') \<Rightarrow>
          (Inr (s32 (div_s64
                  (s64 (uint (charge_full_design_uah battery') * sint crate *
                        MAX17048_CRATE_LSB_NUM))
                  MAX17048_CRATE_LSB_DEN)),
           battery'))"

text \<open>The values of \<open>enum power_supply_status\<close> and of the capacity levels of
  linux/power_supply.h.\<close>

datatype power_supply_status =
    POWER_SUPPLY_STATUS_UNKNOWN
  | POWER_SUPPLY_STATUS_CHARGING
  | POWER_SUPPLY_STATUS_DISCHARGING
  | POWER_SUPPLY_STATUS_NOT_CHARGING
  | POWER_SUPPLY_STATUS_FULL

datatype power_supply_capacity_level =
    POWER_SUPPLY_CAPACITY_LEVEL_UNKNOWN
  | POWER_SUPPLY_CAPACITY_LEVEL_CRITICAL
  | POWER_SUPPLY_CAPACITY_LEVEL_LOW
  | POWER_SUPPLY_CAPACITY_LEVEL_NORMAL
  | POWER_SUPPLY_CAPACITY_LEVEL_HIGH
  | POWER_SUPPLY_CAPACITY_LEVEL_FULL

definition max17048_get_status :: "max17048 \<Rightarrow> power_supply_status \<times> max17048" where
  "max17048_get_status battery =
     (case max17048_get_crate battery of
        (Inl ret, b1) \<Rightarrow> (POWER_SUPPLY_STATUS_UNKNOWN, b1)
      | (Inr crate, b1) \<Rightarrow>
          if sint crate > MAX17048_CRATE_NOISE_THR then (POWER_SUPPLY_STATUS_CHARGING, b1)
          else if sint crate < - MAX17048_CRATE_NOISE_THR
            then (POWER_SUPPLY_STATUS_DISCHARGING, b1)
          else
            let (soc, b2) = max17048_get_soc b1 in
            if soc \<ge> MAX17048_FULL_SOC_THR then (POWER_SUPPLY_STATUS_FULL, b2)
            else (POWER_SUPPLY_STATUS_NOT_CHARGING, b2))"

definition max17048_get_time_to_empty :: "max17048 \<Rightarrow> (int + int) \<times> max17048" where
  "max17048_get_time_to_empty battery =
     (case max17048_get_crate battery of
        (Inl ret, b1) \<Rightarrow> (Inl ret, b1)
      | (Inr crate, b1) \<Rightarrow>
          if sint crate \<ge> - MAX17048_TTE_RATE_THR then (Inl (- ENODATA), b1)
          else
            let (soc, b2) = max17048_get_soc b1 in
            if soc < 0 then (Inl soc, b2)
            else
              let discharge_rate = s32 \<bar>sint crate\<bar> in
              (Inr (s32 (div_s64
                      (s64 (MAX17048_TTE_CONST_NUM * soc * MAX17048_TTE_TUNING_FACTOR))
                      (s64 (discharge_rate * MAX17048_TTE_CONST_DEN)))),
               b2))"

definition max17048_get_time_to_full :: "max17048 \<Rightarrow> (int + int) \<times> max17048" where
  "max17048_get_time_to_full battery =
     (case max17048_get_crate battery of
        (Inl ret, b1) \<Rightarrow> (Inl ret, b1)
      | (Inr crate, b1) \<Rightarrow>
          if sint crate \<le> MAX17048_TTE_RATE_THR then (Inl (- ENODATA), b1)
          else
            let (soc, b2) = max17048_get_soc b1 in
            if soc < 0 then (Inl soc, b2)
            else
              (Inr (s32 (div_s64
                      (s64 (MAX17048_TTE_CONST_NUM * s32 (100 - soc)))
                      (s64 (sint crate * MAX17048_TTE_CONST_DEN)))),
               b2))"

definition max17048_get_capacity_level ::
    "max17048 \<Rightarrow> power_supply_capacity_level \<times> max17048" where
  "max17048_get_capacity_level battery =
     (let (soc, b1) = max17048_get_soc battery;
          (status, b2) = max17048_get_status b1
      in
        if soc < 0 then (POWER_SUPPLY_CAPACITY_LEVEL_UNKNOWN, b2)
        else if status = POWER_SUPPLY_STATUS_FULL \<or> soc \<ge> MAX17048_CAP_FULL_THR
          then (POWER_SUPPLY_CAPACITY_LEVEL_FULL, b2)
        else if soc \<le> MAX17048_CAP_CRIT_THR then (POWER_SUPPLY_CAPACITY_LEVEL_CRITICAL, b2)
        else if soc \<le> MAX17048_CAP_LOW_THR then (POWER_SUPPLY_CAPACITY_LEVEL_LOW, b2)
        else (POWER_SUPPLY_CAPACITY_LEVEL_NORMAL, b2))"

subsection \<open>The power-supply callbacks\<close>

text \<open>The properties the two callbacks are asked for; \<open>POWER_SUPPLY_PROP_OTHER\<close> stands
  for every other member of the kernel's enumeration.\<close>

datatype power_supply_property =
    POWER_SUPPLY_PROP_STATUS
  | POWER_SUPPLY_PROP_VOLTAGE_NOW
  | POWER_SUPPLY_PROP_CAPACITY
  | POWER_SUPPLY_PROP_CAPACITY_LEVEL
  | POWER_SUPPLY_PROP_CHARGE_FULL_DESIGN
  | POWER_SUPPLY_PROP_CHARGE_NOW
  | POWER_SUPPLY_PROP_ENERGY_NOW
  | POWER_SUPPLY_PROP_ENERGY_FULL
  | POWER_SUPPLY_PROP_ENERGY_FULL_DESIGN
  | POWER_SUPPLY_PROP_TECHNOLOGY
  | POWER_SUPPLY_PROP_CURRENT_NOW
  | POWER_SUPPLY_PROP_TIME_TO_EMPTY_NOW
  | POWER_SUPPLY_PROP_TIME_TO_FULL_NOW
  | POWER_SUPPLY_PROP_MODEL_NAME
  | POWER_SUPPLY_PROP_MANUFACTURER
  | POWER_SUPPLY_PROP_PRESENT
  | POWER_SUPPLY_PROP_ONLINE
  | POWER_SUPPLY_PROP_OTHER nat

text \<open>\<open>union power_supply_propval\<close>: the member written last.\<close>

datatype power_supply_propval = Intval int | Strval string

text \<open>The numbers behind the enumerators that end up in \<open>intval\<close>.\<close>

fun status_code :: "power_supply_status \<Rightarrow> int" where
  "status_code POWER_SUPPLY_STATUS_UNKNOWN = 0"
| "status_code POWER_SUPPLY_STATUS_CHARGING = 1"
| "status_code POWER_SUPPLY_STATUS_DISCHARGING = 2"
| "status_code POWER_SUPPLY_STATUS_NOT_CHARGING = 3"
| "status_code POWER_SUPPLY_STATUS_FULL = 4"

fun capacity_level_code :: "power_supply_capacity_level \<Rightarrow> int" where
  "capacity_level_code POWER_SUPPLY_CAPACITY_LEVEL_UNKNOWN = 0"
| "capacity_level_code POWER_SUPPLY_CAPACITY_LEVEL_CRITICAL = 1"
| "capacity_level_code POWER_SUPPLY_CAPACITY_LEVEL_LOW = 2"
| "capacity_level_code POWER_SUPPLY_CAPACITY_LEVEL_NORMAL = 3"
| "capacity_level_code POWER_SUPPLY_CAPACITY_LEVEL_HIGH = 4"
| "capacity_level_code POWER_SUPPLY_CAPACITY_LEVEL_FULL = 5"

definition POWER_SUPPLY_TECHNOLOGY_LIPO :: int where
  "POWER_SUPPLY_TECHNOLOGY_LIPO = 3"

text \<open>\<open>battery_get_property\<close> returns its code, the propval behind the pointer (the
  caller's \<open>val\<close> where the callback did not write it) and the driver data.\<close>

definition battery_get_property ::
    "max17048 \<Rightarrow> power_supply_property \<Rightarrow> power_supply_propval
       \<Rightarrow> int \<times> power_supply_propval \<times> max17048" where
  "battery_get_property battery psp val =
     (case psp of
        POWER_SUPPLY_PROP_STATUS \<Rightarrow>
          (let (st, b) = max17048_get_status battery in (0, Intval (status_code st), b))
      | POWER_SUPPLY_PROP_VOLTAGE_NOW \<Rightarrow>
          (let (ret, b) = max17048_get_vcell battery in
           if ret < 0 then (ret, val, b) else (0, Intval ret, b))
      | POWER_SUPPLY_PROP_CAPACITY \<Rightarrow>
          (let (ret, b) = max17048_get_soc battery in
           if ret < 0 then (ret, val, b) else (0, Intval ret, b))
      | POWER_SUPPLY_PROP_CAPACITY_LEVEL \<Rightarrow>
          (let (lv, b) = max17048_get_capacity_level battery in
           (0, Intval (capacity_level_code lv), b))
      | POWER_SUPPLY_PROP_CHARGE_NOW \<Rightarrow>
          (let (ret, b) = max17048_get_soc battery in
           if ret < 0 then (ret, val, b)
           else (0, Intval (s32 (div_s64 (s64 (ret * uint (charge_full_design_uah b))) 100)), b))
      | POWER_SUPPLY_PROP_CHARGE_FULL_DESIGN \<Rightarrow>
          (0, Intval (sint (charge_full_design_uah battery)), battery)
      | POWER_SUPPLY_PROP_ENERGY_NOW \<Rightarrow>
          (let (ret, b) = max17048_get_soc battery in
           if ret < 0 then (ret, val, b)
           else (0, Intval (s32 (div_s64 (s64 (ret * uint (energy_full_design_uwh b))) 100)), b))
      | POWER_SUPPLY_PROP_ENERGY_FULL \<Rightarrow>
          (0, Intval (sint (energy_full_design_uwh battery)), battery)
      | POWER_SUPPLY_PROP_ENERGY_FULL_DESIGN \<Rightarrow>
          (0, Intval (sint (energy_full_design_uwh battery)), battery)
      | POWER_SUPPLY_PROP_TECHNOLOGY \<Rightarrow>
          (0, Intval POWER_SUPPLY_TECHNOLOGY_LIPO, battery)
      | POWER_SUPPLY_PROP_CURRENT_NOW \<Rightarrow>
          (case max17048_get_current battery of
             (Inl ret, b) \<Rightarrow> if ret < 0 then (ret, val, b) else (0, val, b)
           | (Inr v, b) \<Rightarrow> (0, Intval v, b))
      | POWER_SUPPLY_PROP_TIME_TO_EMPTY_NOW \<Rightarrow>
          (case max17048_get_time_to_empty battery of
             (Inl ret, b) \<Rightarrow> if ret < 0 then (ret, val, b) else (0, val, b)
           | (Inr v, b) \<Rightarrow> (0, Intval v, b))
      | POWER_SUPPLY_PROP_TIME_TO_FULL_NOW \<Rightarrow>
          (case max17048_get_time_to_full battery of
             (Inl ret, b) \<Rightarrow> if ret < 0 then (ret, val, b) else (0, val, b)
           | (Inr v, b) \<Rightarrow> (0, Intval v, b))
      | POWER_SUPPLY_PROP_MODEL_NAME \<Rightarrow> (0, Strval ''MAX17048'', battery)
      | POWER_SUPPLY_PROP_MANUFACTURER \<Rightarrow> (0, Strval ''Maxim Integrated'', battery)
      | POWER_SUPPLY_PROP_PRESENT \<Rightarrow> (0, Intval 1, battery)
      | _ \<Rightarrow> (- EINVAL, val, battery))"

definition max17048_ac_get_property ::
    "max17048 \<Rightarrow> power_supply_property \<Rightarrow> power_supply_propval
       \<Rightarrow> int \<times> power_supply_propval \<times> max17048" where
  "max17048_ac_get_property drv psp val =
     (case psp of
        POWER_SUPPLY_PROP_ONLINE \<Rightarrow>
          (let (status, b) = max17048_get_status drv in
           (0,
            Intval (if status = POWER_SUPPLY_STATUS_CHARGING \<or> status = POWER_SUPPLY_STATUS_FULL
                    then 1 else 0),
            b))
      | _ \<Rightarrow> (- EINVAL, val, drv))"

subsection \<open>Probe\<close>

text \<open>
  What the kernel answers while \<open>max17048_probe\<close> runs: whether the adapter has the
  SMBus byte functionality, whether the allocation succeeds, the regmap or the error of
  its creation, the firmware properties of the device (a property that is absent, or
  holds no \<open>u32\<close>, is not in the map), the error of each power-supply registration if
  there is one, the interrupt number of the client (0 for none), the return code of the
  interrupt request, and \<open>msecs_to_jiffies\<close>.
\<close>

record probe_env =
  i2c_check_functionality :: bool
  devm_kzalloc_ok :: bool
  devm_regmap_init_i2c :: "int + i2c_regmap"
  properties :: "string \<rightharpoonup> 32 word"
  battery_register_err :: "int option"
  ac_register_err :: "int option"
  client_irq :: nat
  devm_request_threaded_irq :: int
  msecs_to_jiffies :: "nat \<Rightarrow> nat"

text \<open>\<open>device_property_read_u32\<close> of the kernel: 0 and the value stored through the
  pointer when the property is there, a negative error number and the target left as it
  was otherwise.\<close>

definition device_property_read_u32 ::
    "(string \<rightharpoonup> 32 word) \<Rightarrow> string \<Rightarrow> 32 word \<Rightarrow> int \<times> 32 word" where
  "device_property_read_u32 props name target =
     (case props name of None \<Rightarrow> (- EINVAL, target) | Some v \<Rightarrow> (0, v))"

text \<open>The block "Read properties" of \<open>max17048_probe\<close> in two parts. The first
  settles the design capacity: the explicit property, clamped; the legacy property in
  mAh if the explicit one could not be read; the default if the result is 0.\<close>

definition max17048_read_charge_design ::
    "(string \<rightharpoonup> 32 word) \<Rightarrow> max17048 \<Rightarrow> max17048" where
  "max17048_read_charge_design props drv0 =
     (let (ret, uah) = device_property_read_u32 props ''charge-full-design-microamp-hours''
                         (charge_full_design_uah drv0);
          drv = drv0\<lparr>charge_full_design_uah := uah\<rparr>;
          drv = (if charge_full_design_uah drv > MAX17048_MAX_CAP_UAH
                 then drv\<lparr>charge_full_design_uah := MAX17048_MAX_CAP_UAH\<rparr> else drv);
          drv = (if ret \<noteq> 0 then
                   let (ret2, cap_mah) = device_property_read_u32 props ''battery-capacity'' 0 in
                   if ret2 = 0 then
                     (if cap_mah > 0 \<and> cap_mah < 20000
                      then drv\<lparr>charge_full_design_uah := cap_mah * 1000\<rparr> else drv)
                   else drv
                 else drv);
          drv = (if charge_full_design_uah drv = 0
                 then drv\<lparr>charge_full_design_uah := MAX17048_DEFAULT_CAP_UAH\<rparr> else drv)
      in drv)"

text \<open>The second part settles the design energy: the explicit property, or 3.7 times the
  design capacity if that could not be read or is 0; then the clamp.\<close>

definition max17048_read_energy_design ::
    "(string \<rightharpoonup> 32 word) \<Rightarrow> max17048 \<Rightarrow> max17048" where
  "max17048_read_energy_design props drv0 =
     (let (ret, uwh) = device_property_read_u32 props ''energy-full-design-microwatt-hours''
                         (energy_full_design_uwh drv0);
          drv = drv0\<lparr>energy_full_design_uwh := uwh\<rparr>;
          drv = (if ret \<noteq> 0 \<or> energy_full_design_uwh drv = 0
                 then drv\<lparr>energy_full_design_uwh :=
                        ucast (div_u64 (ucast (charge_full_design_uah drv) * 37) 10)\<rparr>
                 else drv);
          drv = (if energy_full_design_uwh drv > MAX17048_MAX_ENERGY_UWH
                 then drv\<lparr>energy_full_design_uwh := MAX17048_MAX_ENERGY_UWH\<rparr> else drv)
      in drv)"

definition max17048_read_properties :: "(string \<rightharpoonup> 32 word) \<Rightarrow> max17048 \<Rightarrow> max17048" where
  "max17048_read_properties props drv =
     max17048_read_energy_design props (max17048_read_charge_design props drv)"

text \<open>\<open>max17048_probe\<close>: \<open>Inl\<close> is the error it returns, \<open>Inr\<close> the driver data it leaves
  behind when it returns 0.\<close>

definition max17048_probe :: "probe_env \<Rightarrow> int + max17048" where
  "max17048_probe env =
     (if \<not> i2c_check_functionality env then Inl (- EIO)
      else if \<not> devm_kzalloc_ok env then Inl (- ENOMEM)
      else
        case devm_regmap_init_i2c env of
          Inl err \<Rightarrow> Inl err
        | Inr m \<Rightarrow>
            let drv = \<lparr>regmap = m, charge_full_design_uah = 0, energy_full_design_uwh = 0,
                       delay = 0\<rparr>;
                drv = max17048_read_properties (properties env) drv
            in
              case battery_register_err env of
                Some err \<Rightarrow> Inl err
              | None \<Rightarrow>
                  (case ac_register_err env of
                     Some err \<Rightarrow> Inl err
                   | None \<Rightarrow>
                       if client_irq env \<noteq> 0 then
                         (if devm_request_threaded_irq env \<noteq> 0
                          then Inl (devm_request_threaded_irq env)
                          else Inr (drv\<lparr>delay := msecs_to_jiffies env 300000\<rparr>))
                       else Inr (drv\<lparr>delay := msecs_to_jiffies env 30000\<rparr>)))"

text \<open>The design energy that probe derives from a design capacity: 37/10 of it, computed
  in \<open>u64\<close> and cut to \<open>u32\<close>.\<close>

definition derived_energy :: "32 word \<Rightarrow> 32 word" where
  "derived_energy c = ucast (div_u64 (ucast c * 37) 10)"

text \<open>What a probe leaves as design capacity and design energy (in uAh and uWh), or the
  error it returns; and a board on which every kernel call of probe succeeds, with no
  interrupt line and the firmware properties \<open>props\<close>.\<close>

definition probed_design :: "probe_env \<Rightarrow> int + int \<times> int" where
  "probed_design env =
     (case max17048_probe env of
        Inl err \<Rightarrow> Inl err
      | Inr drv \<Rightarrow> Inr (uint (charge_full_design_uah drv), uint (energy_full_design_uwh drv)))"

definition board :: "(string \<rightharpoonup> 32 word) \<Rightarrow> probe_env" where
  "board props =
     \<lparr>i2c_check_functionality = True, devm_kzalloc_ok = True,
      devm_regmap_init_i2c = Inr \<lparr>replies = (\<lambda>n reg. (0, 0)), transfers = 0\<rparr>,
      properties = props, battery_register_err = None, ac_register_err = None,
      client_irq = 0, devm_request_threaded_irq = 0, msecs_to_jiffies = (\<lambda>ms. ms)\<rparr>"

subsection \<open>Vocabulary for statements about the transport\<close>

text \<open>\<open>reply_at battery k reg\<close> is the reply that the \<open>k\<close>-th transfer from now gets if it
  addresses \<open>reg\<close>.\<close>

definition reply_at :: "max17048 \<Rightarrow> nat \<Rightarrow> 8 word \<Rightarrow> int \<times> 32 word" where
  "reply_at battery k reg = replies (regmap battery) (transfers (regmap battery) + k) reg"

text \<open>The driver data after one more transfer on its regmap.\<close>

definition after_transfer :: "max17048 \<Rightarrow> max17048" where
  "after_transfer battery =
     battery\<lparr>regmap := (regmap battery)\<lparr>transfers := Suc (transfers (regmap battery))\<rparr>\<rparr>"

text \<open>A successful transfer of a 16-bit register value (\<open>max17048_regmap_cfg\<close> sets
  \<open>val_bits\<close> to 16): return code 0 and the value zero-extended into the \<open>u32\<close> behind
  the pointer.\<close>

definition read_ok :: "16 word \<Rightarrow> int \<times> 32 word" where
  "read_ok raw = (0, ucast raw)"

text \<open>Driver data for a 5000 mAh battery on a regmap that has made no transfer yet and
  will answer as \<open>r\<close> says.\<close>

definition device :: "(nat \<Rightarrow> 8 word \<Rightarrow> int \<times> 32 word) \<Rightarrow> max17048" where
  "device r =
     \<lparr>regmap = \<lparr>replies = r, transfers = 0\<rparr>,
      charge_full_design_uah = 5000000, energy_full_design_uwh = 18500000, delay = 0\<rparr>"

text \<open>A device whose registers keep their values: every transfer to \<open>reg\<close> gets \<open>f reg\<close>.\<close>

definition steady_device :: "(8 word \<Rightarrow> int \<times> 32 word) \<Rightarrow> max17048" where
  "steady_device f = device (\<lambda>n. f)"

text \<open>A steady device that answers \<open>vcell\<close>, \<open>soc\<close> and \<open>crate\<close> at the three telemetry
  registers and reads 0 everywhere else.\<close>

definition gauge :: "int \<times> 32 word \<Rightarrow> int \<times> 32 word \<Rightarrow> int \<times> 32 word \<Rightarrow> max17048" where
  "gauge vcell soc crate =
     steady_device (\<lambda>reg. if reg = MAX17048_VCELL_REG then vcell
                          else if reg = MAX17048_SOC_REG then soc
                          else if reg = MAX17048_CRATE_REG then crate
                          else (0, 0))"

text \<open>A device whose state-of-charge register reads \<open>soc0\<close> at the first transfer and
  \<open>soc1\<close> at every later one; every other register reads \<open>crate\<close>.\<close>

definition rising_gauge :: "16 word \<Rightarrow> 16 word \<Rightarrow> 16 word \<Rightarrow> max17048" where
  "rising_gauge soc0 soc1 crate =
     device (\<lambda>n reg. if reg = MAX17048_SOC_REG
                         then (if n = 0 then read_ok soc0 else read_ok soc1)
                         else read_ok crate)"

text \<open>The charge percent of a raw state-of-charge code in the words of the
  specification: the code divided by 256, floored, and clamped to at most 100.\<close>

definition spec_charge_percent :: "16 word \<Rightarrow> int" where
  "spec_charge_percent raw = min 100 (uint raw div 256)"

text \<open>The voltage of a raw cell-voltage code in the words of the specification: the
  code times 625 divided by 8 with a 64-bit intermediate product.\<close>

definition spec_voltage_uv :: "16 word \<Rightarrow> 64 word" where
  "spec_voltage_uv raw = ucast raw * 625 div 8"

section \<open>Properties\<close>

lemmas max17048_regs =
  MAX17048_VCELL_REG_def MAX17048_SOC_REG_def MAX17048_CONFIG_REG_def
  MAX17048_VALRT_REG_def MAX17048_CRATE_REG_def MAX17048_STATUS_REG_def

lemmas max17048_consts =
  MAX17048_VCELL_LSB_NUM_def MAX17048_VCELL_LSB_DEN_def MAX17048_SOC_LSB_INV_def
  MAX17048_CRATE_LSB_NUM_def MAX17048_CRATE_LSB_DEN_def MAX17048_CRATE_NOISE_THR_def
  MAX17048_FULL_SOC_THR_def MAX17048_TTE_CONST_NUM_def MAX17048_TTE_CONST_DEN_def
  MAX17048_TTE_RATE_THR_def MAX17048_CAP_FULL_THR_def MAX17048_CAP_CRIT_THR_def
  MAX17048_CAP_LOW_THR_def MAX17048_DEFAULT_CAP_UAH_def MAX17048_MAX_CAP_UAH_def
  MAX17048_MAX_ENERGY_UWH_def MAX17048_TTE_TUNING_FACTOR_def

lemma reply_at_0:
  "reply_at battery 0 reg = replies (regmap battery) (transfers (regmap battery)) reg"
  by (simp add: reply_at_def)

lemma read_reg_eq:
  "max17048_read_reg battery reg = (reply_at battery 0 reg, after_transfer battery)"
  by (simp add: max17048_read_reg_def regmap_read_def reply_at_def after_transfer_def)

lemma reply_at_after_transfer:
  "reply_at (after_transfer battery) k reg = reply_at battery (Suc k) reg"
  by (simp add: reply_at_def after_transfer_def)

lemma design_after_transfer:
  "charge_full_design_uah (after_transfer battery) = charge_full_design_uah battery"
  "energy_full_design_uwh (after_transfer battery) = energy_full_design_uwh battery"
  by (simp_all add: after_transfer_def)

lemma gauge_reply:
  "reply_at (gauge vcell soc crate) k MAX17048_VCELL_REG = vcell"
  "reply_at (gauge vcell soc crate) k MAX17048_SOC_REG = soc"
  "reply_at (gauge vcell soc crate) k MAX17048_CRATE_REG = crate"
  by (simp_all add: gauge_def steady_device_def device_def reply_at_def max17048_regs)

lemma rising_gauge_reply:
  "reply_at (rising_gauge soc0 soc1 crate) k MAX17048_SOC_REG
     = (if k = 0 then read_ok soc0 else read_ok soc1)"
  "reply_at (rising_gauge soc0 soc1 crate) k MAX17048_CRATE_REG = read_ok crate"
  by (simp_all add: rising_gauge_def device_def reply_at_def max17048_regs)

subsection \<open>Integer conversions that lose nothing\<close>

lemma s32_id: "- 2147483648 \<le> x \<Longrightarrow> x < 2147483648 \<Longrightarrow> s32 x = x"
  by (simp add: s32_def signed_take_bit_int_eq_self)

lemma s64_id: "- 9223372036854775808 \<le> x \<Longrightarrow> x < 9223372036854775808 \<Longrightarrow> s64 x = x"
  by (simp add: s64_def signed_take_bit_int_eq_self)

lemma uint_ucast_16_32: "uint (ucast (raw :: 16 word) :: 32 word) = uint raw"
  by (simp add: uint_up_ucast is_up)

lemma uint_ucast_16_64: "uint (ucast (raw :: 16 word) :: 64 word) = uint raw"
  by (simp add: uint_up_ucast is_up)

lemma uint_raw_bound: "uint (raw :: 16 word) < 65536"
  using uint_bounded [of raw] by simp

lemma sint32_small: "uint (w :: 32 word) < 2147483648 \<Longrightarrow> sint w = uint w"
proof -
  assume a: "uint w < 2147483648"
  have "- 2147483648 \<le> uint w"
    by (rule order_trans [of _ 0]) simp_all
  then have "signed_take_bit 31 (uint w) = uint w"
    using a s32_id [of "uint w"] by (simp add: s32_def)
  then show ?thesis by (simp add: sint_uint)
qed

lemma sint16_eq: "sint (ucast (ucast (raw :: 16 word) :: 32 word) :: 16 word) = sint raw"
  by (simp add: ucast_up_ucast_id is_up)

lemma sdiv_nonneg: "0 \<le> a \<Longrightarrow> 0 < d \<Longrightarrow> a sdiv d = a div (d :: int)"
  by (cases "a = 0") (simp_all add: signed_divide_int_def)

lemma div_s64_small:
  assumes "0 \<le> a" "a < 2147483648" "0 < d" "d < 2147483648"
  shows "s32 (div_s64 (s64 a) (s64 d)) = a div d"
proof -
  have q0: "0 \<le> a div d" using assms by (simp add: pos_imp_zdiv_nonneg_iff)
  have "a div d \<le> a div 1" using assms by (intro zdiv_mono2) simp_all
  then have q1: "a div d < 2147483648" using assms by simp
  have "s64 a = a" "s64 d = d" "s32 d = d"
    using assms by (simp_all add: s64_id s32_id)
  then have "div_s64 (s64 a) (s64 d) = s64 (a div d)"
    using assms by (simp add: div_s64_def sdiv_nonneg)
  also have "\<dots> = a div d" using q0 q1 by (simp add: s64_id)
  finally show ?thesis using q0 q1 by (simp add: s32_id)
qed

subsection \<open>Voltage and charge percent\<close>

lemma get_soc_ok:
  assumes "reply_at b 0 MAX17048_SOC_REG = read_ok raw"
  shows "max17048_get_soc b = (spec_charge_percent raw, after_transfer b)"
proof -
  let ?q = "(ucast raw :: 32 word) div 256"
  have q: "uint ?q = uint raw div 256"
    by (simp add: uint_div uint_ucast_16_32)
  have qb: "uint ?q < 256" using uint_raw_bound [of raw] by (simp add: q)
  have gt: "(?q > 100) = (uint raw div 256 > 100)"
    by (simp add: word_less_def q)
  have s: "sint ?q = uint raw div 256"
    using qb q sint32_small [of ?q] by simp
  show ?thesis
    using assms
    by (simp add: max17048_get_soc_def read_reg_eq read_ok_def max17048_consts Let_def
          spec_charge_percent_def gt s min_def)
qed

lemma get_soc_err:
  assumes "reply_at b 0 MAX17048_SOC_REG = (ret, v)" and "ret \<noteq> 0"
  shows "max17048_get_soc b = (ret, after_transfer b)"
  using assms by (simp add: max17048_get_soc_def read_reg_eq)

lemma spec_charge_percent_range: "0 \<le> spec_charge_percent raw \<and> spec_charge_percent raw \<le> 100"
  by (simp add: spec_charge_percent_def pos_imp_zdiv_nonneg_iff)

lemma vcell_product_fits:
  "uint ((ucast (raw :: 16 word) :: 32 word) * 625) = uint raw * 625"
  using uint_raw_bound [of raw]
  by (simp add: uint_word_ariths uint_ucast_16_32 take_bit_eq_mod)

lemma get_vcell_ok:
  assumes "reply_at b 0 MAX17048_VCELL_REG = read_ok raw"
  shows "max17048_get_vcell b = (uint raw * 625 div 8, after_transfer b)"
proof -
  let ?v = "ucast raw :: 32 word"
  have q: "uint (?v * 625 div 8) = uint raw * 625 div 8"
    by (simp add: uint_div vcell_product_fits)
  have s: "sint (?v * 625 div 8) = uint raw * 625 div 8"
    using uint_raw_bound [of raw] q sint32_small [of "?v * 625 div 8"] by simp
  show ?thesis
    using assms
    by (simp add: max17048_get_vcell_def read_reg_eq read_ok_def max17048_consts s)
qed

lemma spec_voltage_uv_eq: "uint (spec_voltage_uv raw) = uint raw * 625 div 8"
proof -
  have "uint ((ucast raw :: 64 word) * 625) = uint raw * 625"
    using uint_raw_bound [of raw]
    by (simp add: uint_word_ariths uint_ucast_16_64 take_bit_eq_mod)
  then show ?thesis
    by (simp add: spec_voltage_uv_def uint_div)
qed

text \<open>
  Claim C5. For every 16-bit raw charge-percent code that the transfer delivers,
  \<open>max17048_get_soc\<close> returns the code divided by 256, floored, and clamped above at
  100. Every code from 25600 on gives exactly 100, and the result is never negative, so
  a code above 100 percent is clamped and not reported as an error.
\<close>

theorem get_soc_floor_clamped:
  assumes "reply_at b 0 MAX17048_SOC_REG = read_ok raw"
  shows "fst (max17048_get_soc b) = min 100 (uint raw div 256)
         \<and> (25600 \<le> uint raw \<longrightarrow> fst (max17048_get_soc b) = 100)
         \<and> 0 \<le> fst (max17048_get_soc b)"
  using get_soc_ok [OF assms] spec_charge_percent_range [of raw]
  by (auto simp add: spec_charge_percent_def)

theorem get_soc_floor_clamped_witness:
  "reply_at (steady_device (\<lambda>reg. read_ok 25700)) 0 MAX17048_SOC_REG = read_ok 25700
   \<and> 25600 \<le> uint (25700 :: 16 word)
   \<and> fst (max17048_get_soc (steady_device (\<lambda>reg. read_ok 25700))) = 100"
  using get_soc_floor_clamped [of "steady_device (\<lambda>reg. read_ok 25700)" 25700]
  by (simp add: reply_at_def steady_device_def device_def)

text \<open>
  Claim C6. For every 16-bit raw voltage code that the transfer delivers,
  \<open>max17048_get_vcell\<close> returns the code times 625 divided by 8, truncated. The product
  is computed in 32-bit unsigned arithmetic and does not wrap there, so the result is
  the one that a 64-bit intermediate product gives.
\<close>

theorem get_vcell_exact:
  assumes "reply_at b 0 MAX17048_VCELL_REG = read_ok raw"
  shows "fst (max17048_get_vcell b) = uint raw * 625 div 8
         \<and> uint ((ucast raw :: 32 word) * MAX17048_VCELL_LSB_NUM) = uint raw * 625
         \<and> fst (max17048_get_vcell b) = uint (spec_voltage_uv raw)"
  using get_vcell_ok [OF assms]
  by (simp add: spec_voltage_uv_eq vcell_product_fits MAX17048_VCELL_LSB_NUM_def)

theorem get_vcell_exact_witness:
  "reply_at (steady_device (\<lambda>reg. read_ok 65535)) 0 MAX17048_VCELL_REG = read_ok 65535
   \<and> fst (max17048_get_vcell (steady_device (\<lambda>reg. read_ok 65535))) = 5119921"
  using get_vcell_exact [of "steady_device (\<lambda>reg. read_ok 65535)" 65535]
  by (simp add: reply_at_def steady_device_def device_def)

subsection \<open>The rate register\<close>

lemma get_crate_ok:
  assumes "reply_at b 0 MAX17048_CRATE_REG = read_ok c"
  shows "max17048_get_crate b = (Inr c, after_transfer b)"
  using assms
  by (simp add: max17048_get_crate_def read_reg_eq read_ok_def ucast_up_ucast_id is_up)

lemma get_crate_err:
  assumes "reply_at b 0 MAX17048_CRATE_REG = (ret, v)" and "ret \<noteq> 0"
  shows "max17048_get_crate b = (Inl ret, after_transfer b)"
  using assms by (simp add: max17048_get_crate_def read_reg_eq)

lemma sint16_range: "- 32768 \<le> sint (c :: 16 word) \<and> sint c < 32768"
  using sint_ge [of c] sint_lt [of c] by simp

subsection \<open>Charging status\<close>

lemma get_status_unknown:
  assumes "reply_at b 0 MAX17048_CRATE_REG = (ret, v)" and "ret \<noteq> 0"
  shows "max17048_get_status b = (POWER_SUPPLY_STATUS_UNKNOWN, after_transfer b)"
  by (simp add: max17048_get_status_def get_crate_err [OF assms])

lemma get_status_charging:
  assumes "reply_at b 0 MAX17048_CRATE_REG = read_ok c" and "4 < sint c"
  shows "max17048_get_status b = (POWER_SUPPLY_STATUS_CHARGING, after_transfer b)"
  using assms(2)
  by (simp add: max17048_get_status_def get_crate_ok [OF assms(1)] max17048_consts)

lemma get_status_discharging:
  assumes "reply_at b 0 MAX17048_CRATE_REG = read_ok c" and "sint c < - 4"
  shows "max17048_get_status b = (POWER_SUPPLY_STATUS_DISCHARGING, after_transfer b)"
  using assms(2)
  by (simp add: max17048_get_status_def get_crate_ok [OF assms(1)] max17048_consts)

lemma get_status_band:
  assumes "reply_at b 0 MAX17048_CRATE_REG = read_ok c" and "\<bar>sint c\<bar> \<le> 4"
  shows "max17048_get_status b =
           (if 95 \<le> fst (max17048_get_soc (after_transfer b)) then POWER_SUPPLY_STATUS_FULL
            else POWER_SUPPLY_STATUS_NOT_CHARGING,
            snd (max17048_get_soc (after_transfer b)))"
proof -
  from assms(2) have "\<not> 4 < sint c" "\<not> sint c < - 4" by linarith+
  then show ?thesis
    by (simp add: max17048_get_status_def get_crate_ok [OF assms(1)] max17048_consts split_def)
qed

lemma get_status_band_ok:
  assumes "reply_at b 0 MAX17048_CRATE_REG = read_ok c" and "\<bar>sint c\<bar> \<le> 4"
    and "reply_at b 1 MAX17048_SOC_REG = read_ok s"
  shows "fst (max17048_get_status b) =
           (if 95 \<le> spec_charge_percent s then POWER_SUPPLY_STATUS_FULL
            else POWER_SUPPLY_STATUS_NOT_CHARGING)"
proof -
  have "reply_at (after_transfer b) 0 MAX17048_SOC_REG = read_ok s"
    using assms(3) by (simp add: reply_at_after_transfer)
  then have "max17048_get_soc (after_transfer b) =
               (spec_charge_percent s, after_transfer (after_transfer b))"
    by (rule get_soc_ok)
  then show ?thesis using get_status_band [OF assms(1,2)] by simp
qed

lemma get_status_unknown_iff:
  "fst (max17048_get_status b) = POWER_SUPPLY_STATUS_UNKNOWN
     \<longleftrightarrow> fst (reply_at b 0 MAX17048_CRATE_REG) \<noteq> 0"
  by (simp add: max17048_get_status_def max17048_get_crate_def read_reg_eq split_def Let_def)

text \<open>
  Claim C4. \<open>max17048_get_status\<close> always returns a status and never an error code. If
  the rate transfer fails, the status is Unknown. If it succeeds, a rate above +4 gives
  Charging and a rate below -4 gives Discharging; for a rate within the band from -4 to
  +4 the charge percent is read next, and the status is Full when the percent is at
  least 95 and NotCharging otherwise. The witness runs the five examples of the claim:
  a failed rate transfer, rate 5, rate -5, rate 0 at 96 percent and rate 0 at 50
  percent.
\<close>

theorem get_status_total:
  "(reply_at b 0 MAX17048_CRATE_REG = (ret, v) \<and> ret \<noteq> 0
      \<longrightarrow> fst (max17048_get_status b) = POWER_SUPPLY_STATUS_UNKNOWN)
   \<and> (reply_at b 0 MAX17048_CRATE_REG = read_ok c \<and> 4 < sint c
      \<longrightarrow> fst (max17048_get_status b) = POWER_SUPPLY_STATUS_CHARGING)
   \<and> (reply_at b 0 MAX17048_CRATE_REG = read_ok c \<and> sint c < - 4
      \<longrightarrow> fst (max17048_get_status b) = POWER_SUPPLY_STATUS_DISCHARGING)
   \<and> (reply_at b 0 MAX17048_CRATE_REG = read_ok c \<and> \<bar>sint c\<bar> \<le> 4
        \<and> reply_at b 1 MAX17048_SOC_REG = read_ok s
      \<longrightarrow> fst (max17048_get_status b) =
            (if 95 \<le> min 100 (uint s div 256) then POWER_SUPPLY_STATUS_FULL
             else POWER_SUPPLY_STATUS_NOT_CHARGING))"
proof (intro conjI impI)
  assume "reply_at b 0 MAX17048_CRATE_REG = (ret, v) \<and> ret \<noteq> 0"
  then show "fst (max17048_get_status b) = POWER_SUPPLY_STATUS_UNKNOWN"
    by (simp add: get_status_unknown)
next
  assume "reply_at b 0 MAX17048_CRATE_REG = read_ok c \<and> 4 < sint c"
  then show "fst (max17048_get_status b) = POWER_SUPPLY_STATUS_CHARGING"
    by (simp add: get_status_charging)
next
  assume "reply_at b 0 MAX17048_CRATE_REG = read_ok c \<and> sint c < - 4"
  then show "fst (max17048_get_status b) = POWER_SUPPLY_STATUS_DISCHARGING"
    by (simp add: get_status_discharging)
next
  assume a: "reply_at b 0 MAX17048_CRATE_REG = read_ok c \<and> \<bar>sint c\<bar> \<le> 4
        \<and> reply_at b 1 MAX17048_SOC_REG = read_ok s"
  then have "reply_at (after_transfer b) 0 MAX17048_SOC_REG = read_ok s"
    by (simp add: reply_at_after_transfer)
  then have "max17048_get_soc (after_transfer b) =
               (spec_charge_percent s, after_transfer (after_transfer b))"
    by (rule get_soc_ok)
  then show "fst (max17048_get_status b) =
            (if 95 \<le> min 100 (uint s div 256) then POWER_SUPPLY_STATUS_FULL
             else POWER_SUPPLY_STATUS_NOT_CHARGING)"
    using a get_status_band [of b c] by (simp add: spec_charge_percent_def)
qed

theorem get_status_total_witness:
  "(reply_at (gauge (read_ok 0) (read_ok 0) (- 5, 0)) 0 MAX17048_CRATE_REG = (- 5, 0)
      \<and> (- 5 :: int) \<noteq> 0
      \<and> fst (max17048_get_status (gauge (read_ok 0) (read_ok 0) (- 5, 0)))
          = POWER_SUPPLY_STATUS_UNKNOWN)
   \<and> (reply_at (gauge (read_ok 0) (read_ok 0) (read_ok 5)) 0 MAX17048_CRATE_REG = read_ok 5
      \<and> 4 < sint (5 :: 16 word)
      \<and> fst (max17048_get_status (gauge (read_ok 0) (read_ok 0) (read_ok 5)))
          = POWER_SUPPLY_STATUS_CHARGING)
   \<and> (reply_at (gauge (read_ok 0) (read_ok 0) (read_ok (- 5))) 0 MAX17048_CRATE_REG
          = read_ok (- 5)
      \<and> sint (- 5 :: 16 word) < - 4
      \<and> fst (max17048_get_status (gauge (read_ok 0) (read_ok 0) (read_ok (- 5))))
          = POWER_SUPPLY_STATUS_DISCHARGING)
   \<and> (reply_at (gauge (read_ok 0) (read_ok 24576) (read_ok 0)) 0 MAX17048_CRATE_REG = read_ok 0
      \<and> \<bar>sint (0 :: 16 word)\<bar> \<le> 4
      \<and> reply_at (gauge (read_ok 0) (read_ok 24576) (read_ok 0)) 1 MAX17048_SOC_REG
          = read_ok 24576
      \<and> uint (24576 :: 16 word) div 256 = 96
      \<and> fst (max17048_get_status (gauge (read_ok 0) (read_ok 24576) (read_ok 0)))
          = POWER_SUPPLY_STATUS_FULL)
   \<and> (reply_at (gauge (read_ok 0) (read_ok 12800) (read_ok 0)) 0 MAX17048_CRATE_REG = read_ok 0
      \<and> reply_at (gauge (read_ok 0) (read_ok 12800) (read_ok 0)) 1 MAX17048_SOC_REG
          = read_ok 12800
      \<and> uint (12800 :: 16 word) div 256 = 50
      \<and> fst (max17048_get_status (gauge (read_ok 0) (read_ok 12800) (read_ok 0)))
          = POWER_SUPPLY_STATUS_NOT_CHARGING)"
  using get_status_total [of "gauge (read_ok 0) (read_ok 0) (- 5, 0)" "- 5" 0 0 0]
        get_status_total [of "gauge (read_ok 0) (read_ok 0) (read_ok 5)" 0 0 5 0]
        get_status_total [of "gauge (read_ok 0) (read_ok 0) (read_ok (- 5))" 0 0 "- 5" 0]
        get_status_total [of "gauge (read_ok 0) (read_ok 24576) (read_ok 0)" 0 0 0 24576]
        get_status_total [of "gauge (read_ok 0) (read_ok 12800) (read_ok 0)" 0 0 0 12800]
  by (simp add: gauge_reply)

subsection \<open>Time to empty and time to full\<close>

lemma get_time_to_empty_nodata:
  assumes "reply_at b 0 MAX17048_CRATE_REG = read_ok c" and "- 10 \<le> sint c"
  shows "max17048_get_time_to_empty b = (Inl (- ENODATA), after_transfer b)"
  using assms(2)
  by (simp add: max17048_get_time_to_empty_def get_crate_ok [OF assms(1)] max17048_consts)

lemma get_time_to_empty_value:
  assumes c: "reply_at b 0 MAX17048_CRATE_REG = read_ok c" and lt: "sint c < - 10"
    and s: "reply_at b 1 MAX17048_SOC_REG = read_ok s"
  shows "fst (max17048_get_time_to_empty b) =
           Inr (225000 * spec_charge_percent s * 8 div (\<bar>sint c\<bar> * 13))"
proof -
  let ?p = "spec_charge_percent s"
  define r where "r = \<bar>sint c\<bar>"
  have soc: "max17048_get_soc (after_transfer b) = (?p, after_transfer (after_transfer b))"
    using s by (intro get_soc_ok) (simp add: reply_at_after_transfer)
  have p: "0 \<le> ?p" "?p \<le> 100" using spec_charge_percent_range [of s] by simp_all
  have r: "10 < r" "r \<le> 32768" using lt sint16_range [of c] unfolding r_def by linarith+
  have r32: "s32 r = r" using r by (simp add: s32_id)
  have "225000 * ?p * 8 \<le> 225000 * 100 * 8" using p by simp
  then have num: "0 \<le> 225000 * ?p * 8" "225000 * ?p * 8 < 2147483648" using p by simp_all
  have den: "0 < r * 13" "r * 13 < 2147483648" using r by simp_all
  have q: "s32 (div_s64 (s64 (225000 * ?p * 8)) (s64 (r * 13))) = 225000 * ?p * 8 div (r * 13)"
    using num den by (rule div_s64_small)
  have "fst (max17048_get_time_to_empty b) =
          Inr (s32 (div_s64 (s64 (225000 * ?p * 8)) (s64 (s32 r * 13))))"
    using lt p
    by (simp add: max17048_get_time_to_empty_def get_crate_ok [OF c] soc max17048_consts r_def)
  then show ?thesis
    unfolding r32 q by (simp only: r_def)
qed

lemma get_time_to_full_nodata:
  assumes "reply_at b 0 MAX17048_CRATE_REG = read_ok c" and "sint c \<le> 10"
  shows "max17048_get_time_to_full b = (Inl (- ENODATA), after_transfer b)"
  using assms(2)
  by (simp add: max17048_get_time_to_full_def get_crate_ok [OF assms(1)] max17048_consts)

lemma get_time_to_full_value:
  assumes c: "reply_at b 0 MAX17048_CRATE_REG = read_ok c" and gt: "10 < sint c"
    and s: "reply_at b 1 MAX17048_SOC_REG = read_ok s"
  shows "fst (max17048_get_time_to_full b) =
           Inr (225000 * (100 - spec_charge_percent s) div (sint c * 13))"
proof -
  let ?p = "spec_charge_percent s"
  let ?r = "sint c"
  have soc: "max17048_get_soc (after_transfer b) = (?p, after_transfer (after_transfer b))"
    using s by (intro get_soc_ok) (simp add: reply_at_after_transfer)
  have p: "0 \<le> ?p" "?p \<le> 100" using spec_charge_percent_range [of s] by simp_all
  have r: "10 < ?r" "?r < 32768" using gt sint16_range [of c] by simp_all
  have d32: "s32 (100 - ?p) = 100 - ?p" using p by (simp add: s32_id)
  have num: "0 \<le> 225000 * (100 - ?p)" "225000 * (100 - ?p) < 2147483648" using p by simp_all
  have den: "0 < ?r * 13" "?r * 13 < 2147483648" using r by simp_all
  have "s32 (div_s64 (s64 (225000 * (100 - ?p))) (s64 (?r * 13)))
          = 225000 * (100 - ?p) div (?r * 13)"
    using num den by (rule div_s64_small)
  then show ?thesis
    using gt p
    by (simp add: max17048_get_time_to_full_def get_crate_ok [OF c] soc max17048_consts d32)
qed

text \<open>
  Claim C2, as the code has it. When the rate is read, \<open>max17048_get_time_to_empty\<close>
  returns \<open>-ENODATA\<close> for every rate from -10 upwards, without reading the charge
  percent; for a rate below -10, that is at most -11, it reads the charge percent and
  stores 225000 times the percent times 8, divided by 13 times the magnitude of the
  rate, floored. Rate -20 at 50 percent gives 346153.
\<close>

theorem get_time_to_empty_strict_threshold:
  assumes "reply_at b 0 MAX17048_CRATE_REG = read_ok c"
  shows "(- 10 \<le> sint c \<longrightarrow> fst (max17048_get_time_to_empty b) = Inl (- ENODATA))
     \<and> (sint c < - 10 \<and> reply_at b 1 MAX17048_SOC_REG = read_ok s \<longrightarrow>
          fst (max17048_get_time_to_empty b)
            = Inr (225000 * min 100 (uint s div 256) * 8 div (\<bar>sint c\<bar> * 13)))"
proof (intro conjI impI)
  assume "- 10 \<le> sint c"
  from get_time_to_empty_nodata [OF assms this]
  show "fst (max17048_get_time_to_empty b) = Inl (- ENODATA)" by simp
next
  assume a: "sint c < - 10 \<and> reply_at b 1 MAX17048_SOC_REG = read_ok s"
  then have "fst (max17048_get_time_to_empty b)
               = Inr (225000 * spec_charge_percent s * 8 div (\<bar>sint c\<bar> * 13))"
    using assms by (intro get_time_to_empty_value) simp_all
  then show "fst (max17048_get_time_to_empty b)
            = Inr (225000 * min 100 (uint s div 256) * 8 div (\<bar>sint c\<bar> * 13))"
    by (simp only: spec_charge_percent_def)
qed

theorem get_time_to_empty_strict_threshold_witness:
  "(reply_at (gauge (read_ok 0) (read_ok 12800) (read_ok (- 20))) 0 MAX17048_CRATE_REG
      = read_ok (- 20)
    \<and> sint (- 20 :: 16 word) < - 10
    \<and> reply_at (gauge (read_ok 0) (read_ok 12800) (read_ok (- 20))) 1 MAX17048_SOC_REG
      = read_ok 12800
    \<and> uint (12800 :: 16 word) div 256 = 50
    \<and> fst (max17048_get_time_to_empty (gauge (read_ok 0) (read_ok 12800) (read_ok (- 20))))
      = Inr 346153
    \<and> (225000 * 50 * 8 div (20 * 13) :: int) = 346153)
   \<and> (reply_at (gauge (read_ok 0) (read_ok 12800) (read_ok 5)) 0 MAX17048_CRATE_REG
      = read_ok 5
    \<and> - 10 \<le> sint (5 :: 16 word)
    \<and> fst (max17048_get_time_to_empty (gauge (read_ok 0) (read_ok 12800) (read_ok 5)))
      = Inl (- ENODATA))"
  using get_time_to_empty_strict_threshold
          [of "gauge (read_ok 0) (read_ok 12800) (read_ok (- 20))" "- 20" 12800]
        get_time_to_empty_strict_threshold
          [of "gauge (read_ok 0) (read_ok 12800) (read_ok 5)" 5 0]
  by (simp add: gauge_reply)

text \<open>
  Claim C2 as stated fails at the threshold itself: a rate of exactly -10 satisfies
  "rate at most -10", yet the function reports \<open>-ENODATA\<close>.
\<close>

theorem get_time_to_empty_at_threshold_counterexample:
  "sint (- 10 :: 16 word) \<le> - 10
   \<and> fst (max17048_get_time_to_empty (gauge (read_ok 0) (read_ok 12800) (read_ok (- 10))))
      = Inl (- ENODATA)"
  by (simp add: get_time_to_empty_nodata gauge_reply)


text \<open>
  Claim C3, as the code has it. When the rate is read, \<open>max17048_get_time_to_full\<close>
  returns \<open>-ENODATA\<close> for every rate up to +10, without reading the charge percent; for
  a rate above +10, that is at least +11, it reads the charge percent and stores 225000
  times (100 minus the percent), divided by 13 times the rate, floored; the factor 8
  of the time to empty is not applied. Rate 20 at 50 percent gives 43269.
\<close>

theorem get_time_to_full_strict_threshold:
  assumes "reply_at b 0 MAX17048_CRATE_REG = read_ok c"
  shows "(sint c \<le> 10 \<longrightarrow> fst (max17048_get_time_to_full b) = Inl (- ENODATA))
     \<and> (10 < sint c \<and> reply_at b 1 MAX17048_SOC_REG = read_ok s \<longrightarrow>
          fst (max17048_get_time_to_full b)
            = Inr (225000 * (100 - min 100 (uint s div 256)) div (sint c * 13)))"
proof (intro conjI impI)
  assume "sint c \<le> 10"
  from get_time_to_full_nodata [OF assms this]
  show "fst (max17048_get_time_to_full b) = Inl (- ENODATA)" by simp
next
  assume a: "10 < sint c \<and> reply_at b 1 MAX17048_SOC_REG = read_ok s"
  then have "fst (max17048_get_time_to_full b)
               = Inr (225000 * (100 - spec_charge_percent s) div (sint c * 13))"
    using assms by (intro get_time_to_full_value) simp_all
  then show "fst (max17048_get_time_to_full b)
            = Inr (225000 * (100 - min 100 (uint s div 256)) div (sint c * 13))"
    by (simp only: spec_charge_percent_def)
qed

theorem get_time_to_full_strict_threshold_witness:
  "(reply_at (gauge (read_ok 0) (read_ok 12800) (read_ok 20)) 0 MAX17048_CRATE_REG = read_ok 20
    \<and> 10 < sint (20 :: 16 word)
    \<and> reply_at (gauge (read_ok 0) (read_ok 12800) (read_ok 20)) 1 MAX17048_SOC_REG
      = read_ok 12800
    \<and> uint (12800 :: 16 word) div 256 = 50
    \<and> fst (max17048_get_time_to_full (gauge (read_ok 0) (read_ok 12800) (read_ok 20)))
      = Inr 43269
    \<and> (225000 * (100 - 50) div (20 * 13) :: int) = 43269)
   \<and> (reply_at (gauge (read_ok 0) (read_ok 12800) (read_ok (- 5))) 0 MAX17048_CRATE_REG
      = read_ok (- 5)
    \<and> sint (- 5 :: 16 word) \<le> 10
    \<and> fst (max17048_get_time_to_full (gauge (read_ok 0) (read_ok 12800) (read_ok (- 5))))
      = Inl (- ENODATA))"
  using get_time_to_full_strict_threshold
          [of "gauge (read_ok 0) (read_ok 12800) (read_ok 20)" 20 12800]
        get_time_to_full_strict_threshold
          [of "gauge (read_ok 0) (read_ok 12800) (read_ok (- 5))" "- 5" 0]
  by (simp add: gauge_reply)


text \<open>
  Claim C3 as stated fails at the threshold itself: a rate of exactly +10 satisfies
  "rate at least +10", yet the function reports \<open>-ENODATA\<close>.
\<close>

theorem get_time_to_full_at_threshold_counterexample:
  "10 \<le> sint (10 :: 16 word)
   \<and> fst (max17048_get_time_to_full (gauge (read_ok 0) (read_ok 12800) (read_ok 10)))
      = Inl (- ENODATA)"
  by (simp add: get_time_to_full_nodata gauge_reply)

subsection \<open>A failed charge-percent read inside the status\<close>

text \<open>
  Claim C10. If the rate is read and lies within the band from -4 to +4, and the
  following charge-percent transfer fails with a negative error number, then
  \<open>max17048_get_status\<close> returns NotCharging: the error is not passed on and the status
  is not Unknown. For every device, the status is Unknown exactly when the rate
  transfer itself fails.
\<close>

theorem get_status_soc_failure_not_charging:
  assumes "reply_at b 0 MAX17048_CRATE_REG = read_ok c" and "\<bar>sint c\<bar> \<le> 4"
    and "reply_at b 1 MAX17048_SOC_REG = (ret, v)" and "ret < 0"
  shows "fst (max17048_get_status b) = POWER_SUPPLY_STATUS_NOT_CHARGING
         \<and> (fst (max17048_get_status b') = POWER_SUPPLY_STATUS_UNKNOWN
              \<longleftrightarrow> fst (reply_at b' 0 MAX17048_CRATE_REG) \<noteq> 0)"
proof -
  have "reply_at (after_transfer b) 0 MAX17048_SOC_REG = (ret, v)"
    using assms(3) by (simp add: reply_at_after_transfer)
  moreover have "ret \<noteq> 0" using assms(4) by simp
  ultimately have "max17048_get_soc (after_transfer b) = (ret, after_transfer (after_transfer b))"
    by (rule get_soc_err)
  then have "fst (max17048_get_status b) = POWER_SUPPLY_STATUS_NOT_CHARGING"
    using get_status_band [OF assms(1,2)] assms(4) by simp
  then show ?thesis by (simp add: get_status_unknown_iff)
qed


theorem get_status_soc_failure_not_charging_witness:
  "reply_at (gauge (read_ok 0) (- 5, 0) (read_ok 3)) 0 MAX17048_CRATE_REG = read_ok 3
   \<and> \<bar>sint (3 :: 16 word)\<bar> \<le> 4
   \<and> reply_at (gauge (read_ok 0) (- 5, 0) (read_ok 3)) 1 MAX17048_SOC_REG = (- 5, 0)
   \<and> (- 5 :: int) < 0
   \<and> fst (max17048_get_status (gauge (read_ok 0) (- 5, 0) (read_ok 3)))
      = POWER_SUPPLY_STATUS_NOT_CHARGING"
  using get_status_soc_failure_not_charging
          [of "gauge (read_ok 0) (- 5, 0) (read_ok 3)" 3 "- 5" 0]
  by (simp add: gauge_reply)

subsection \<open>Capacity level\<close>

lemma get_capacity_level_unknown:
  assumes "reply_at b 0 MAX17048_SOC_REG = (ret, v)" and "ret < 0"
  shows "fst (max17048_get_capacity_level b) = POWER_SUPPLY_CAPACITY_LEVEL_UNKNOWN"
proof -
  have "ret \<noteq> 0" using assms(2) by simp
  from get_soc_err [OF assms(1) this] assms(2) show ?thesis
    by (simp add: max17048_get_capacity_level_def split_def)
qed

lemma get_capacity_level_read:
  assumes "reply_at b 0 MAX17048_SOC_REG = read_ok s"
  shows "fst (max17048_get_capacity_level b) =
           (if fst (max17048_get_status (after_transfer b)) = POWER_SUPPLY_STATUS_FULL
               \<or> 99 \<le> spec_charge_percent s
            then POWER_SUPPLY_CAPACITY_LEVEL_FULL
            else if spec_charge_percent s \<le> 5 then POWER_SUPPLY_CAPACITY_LEVEL_CRITICAL
            else if spec_charge_percent s \<le> 15 then POWER_SUPPLY_CAPACITY_LEVEL_LOW
            else POWER_SUPPLY_CAPACITY_LEVEL_NORMAL)"
  using spec_charge_percent_range [of s]
  by (simp add: max17048_get_capacity_level_def get_soc_ok [OF assms] split_def max17048_consts)

text \<open>
  Claim C8. \<open>max17048_get_capacity_level\<close> returns Unknown when the charge-percent
  transfer fails. Otherwise, with the status that \<open>max17048_get_status\<close> computes right
  after that transfer, it returns Full when the status is Full or the percent is at
  least 99, and only then Critical for a percent of at most 5, Low for at most 15 and
  Normal for the rest. In the second example of the witness the percent is 3 and the
  status is Full, and the level is Full, not Critical.
\<close>

theorem get_capacity_level_order:
  "(reply_at b 0 MAX17048_SOC_REG = (ret, v) \<and> ret < 0
      \<longrightarrow> fst (max17048_get_capacity_level b) = POWER_SUPPLY_CAPACITY_LEVEL_UNKNOWN)
   \<and> (reply_at b 0 MAX17048_SOC_REG = read_ok s
      \<longrightarrow> fst (max17048_get_capacity_level b) =
            (if fst (max17048_get_status (after_transfer b)) = POWER_SUPPLY_STATUS_FULL
                \<or> 99 \<le> min 100 (uint s div 256)
             then POWER_SUPPLY_CAPACITY_LEVEL_FULL
             else if min 100 (uint s div 256) \<le> 5 then POWER_SUPPLY_CAPACITY_LEVEL_CRITICAL
             else if min 100 (uint s div 256) \<le> 15 then POWER_SUPPLY_CAPACITY_LEVEL_LOW
             else POWER_SUPPLY_CAPACITY_LEVEL_NORMAL))"
  using get_capacity_level_unknown [of b ret v] get_capacity_level_read [of b s]
  by (simp add: spec_charge_percent_def)

theorem get_capacity_level_order_witness:
  "(reply_at (gauge (read_ok 0) (- 5, 0) (read_ok 0)) 0 MAX17048_SOC_REG = (- 5, 0)
      \<and> (- 5 :: int) < 0
      \<and> fst (max17048_get_capacity_level (gauge (read_ok 0) (- 5, 0) (read_ok 0)))
          = POWER_SUPPLY_CAPACITY_LEVEL_UNKNOWN)
   \<and> (reply_at (rising_gauge 768 24576 0) 0 MAX17048_SOC_REG = read_ok 768
      \<and> uint (768 :: 16 word) div 256 = 3
      \<and> fst (max17048_get_status (after_transfer (rising_gauge 768 24576 0)))
          = POWER_SUPPLY_STATUS_FULL
      \<and> fst (max17048_get_capacity_level (rising_gauge 768 24576 0))
          = POWER_SUPPLY_CAPACITY_LEVEL_FULL)
   \<and> (reply_at (rising_gauge 768 768 0) 0 MAX17048_SOC_REG = read_ok 768
      \<and> fst (max17048_get_status (after_transfer (rising_gauge 768 768 0)))
          = POWER_SUPPLY_STATUS_NOT_CHARGING
      \<and> fst (max17048_get_capacity_level (rising_gauge 768 768 0))
          = POWER_SUPPLY_CAPACITY_LEVEL_CRITICAL)
   \<and> (reply_at (rising_gauge 2560 2560 0) 0 MAX17048_SOC_REG = read_ok 2560
      \<and> uint (2560 :: 16 word) div 256 = 10
      \<and> fst (max17048_get_capacity_level (rising_gauge 2560 2560 0))
          = POWER_SUPPLY_CAPACITY_LEVEL_LOW)
   \<and> (reply_at (rising_gauge 12800 12800 0) 0 MAX17048_SOC_REG = read_ok 12800
      \<and> uint (12800 :: 16 word) div 256 = 50
      \<and> fst (max17048_get_capacity_level (rising_gauge 12800 12800 0))
          = POWER_SUPPLY_CAPACITY_LEVEL_NORMAL)
   \<and> (reply_at (rising_gauge 25344 25344 (- 20)) 0 MAX17048_SOC_REG = read_ok 25344
      \<and> uint (25344 :: 16 word) div 256 = 99
      \<and> fst (max17048_get_status (after_transfer (rising_gauge 25344 25344 (- 20))))
          = POWER_SUPPLY_STATUS_DISCHARGING
      \<and> fst (max17048_get_capacity_level (rising_gauge 25344 25344 (- 20)))
          = POWER_SUPPLY_CAPACITY_LEVEL_FULL)"
  using get_capacity_level_order [of "gauge (read_ok 0) (- 5, 0) (read_ok 0)" "- 5" 0 0]
        get_capacity_level_order [of "rising_gauge 768 24576 0" 0 0 768]
        get_capacity_level_order [of "rising_gauge 768 768 0" 0 0 768]
        get_capacity_level_order [of "rising_gauge 2560 2560 0" 0 0 2560]
        get_capacity_level_order [of "rising_gauge 12800 12800 0" 0 0 12800]
        get_capacity_level_order [of "rising_gauge 25344 25344 (- 20)" 0 0 25344]
        get_status_band_ok [of "after_transfer (rising_gauge 768 24576 0)" 0 24576]
        get_status_band_ok [of "after_transfer (rising_gauge 768 768 0)" 0 768]
        get_status_band_ok [of "after_transfer (rising_gauge 2560 2560 0)" 0 2560]
        get_status_band_ok [of "after_transfer (rising_gauge 12800 12800 0)" 0 12800]
        get_status_discharging [of "after_transfer (rising_gauge 25344 25344 (- 20))" "- 20"]
  by (simp add: gauge_reply rising_gauge_reply reply_at_after_transfer spec_charge_percent_def)

subsection \<open>Transport errors\<close>

lemma get_current_err:
  assumes "reply_at b 0 MAX17048_CRATE_REG = (ret, v)" and "ret \<noteq> 0"
  shows "max17048_get_current b = (Inl ret, after_transfer b)"
  by (simp add: max17048_get_current_def get_crate_err [OF assms])

lemma get_time_to_empty_crate_err:
  assumes "reply_at b 0 MAX17048_CRATE_REG = (ret, v)" and "ret \<noteq> 0"
  shows "max17048_get_time_to_empty b = (Inl ret, after_transfer b)"
  by (simp add: max17048_get_time_to_empty_def get_crate_err [OF assms])

lemma get_time_to_full_crate_err:
  assumes "reply_at b 0 MAX17048_CRATE_REG = (ret, v)" and "ret \<noteq> 0"
  shows "max17048_get_time_to_full b = (Inl ret, after_transfer b)"
  by (simp add: max17048_get_time_to_full_def get_crate_err [OF assms])

lemma get_time_to_empty_soc_err:
  assumes c: "reply_at b 0 MAX17048_CRATE_REG = read_ok c" and lt: "sint c < - 10"
    and s: "reply_at b 1 MAX17048_SOC_REG = (ret, v)" and neg: "ret < 0"
  shows "max17048_get_time_to_empty b = (Inl ret, after_transfer (after_transfer b))"
proof -
  have "reply_at (after_transfer b) 0 MAX17048_SOC_REG = (ret, v)"
    using s by (simp add: reply_at_after_transfer)
  moreover have "ret \<noteq> 0" using neg by simp
  ultimately have "max17048_get_soc (after_transfer b) = (ret, after_transfer (after_transfer b))"
    by (rule get_soc_err)
  then show ?thesis
    using lt neg
    by (simp add: max17048_get_time_to_empty_def get_crate_ok [OF c] max17048_consts)
qed

lemma get_time_to_full_soc_err:
  assumes c: "reply_at b 0 MAX17048_CRATE_REG = read_ok c" and gt: "10 < sint c"
    and s: "reply_at b 1 MAX17048_SOC_REG = (ret, v)" and neg: "ret < 0"
  shows "max17048_get_time_to_full b = (Inl ret, after_transfer (after_transfer b))"
proof -
  have "reply_at (after_transfer b) 0 MAX17048_SOC_REG = (ret, v)"
    using s by (simp add: reply_at_after_transfer)
  moreover have "ret \<noteq> 0" using neg by simp
  ultimately have "max17048_get_soc (after_transfer b) = (ret, after_transfer (after_transfer b))"
    by (rule get_soc_err)
  then show ?thesis
    using gt neg
    by (simp add: max17048_get_time_to_full_def get_crate_ok [OF c] max17048_consts)
qed

lemma property_crate_err:
  assumes "reply_at b 0 MAX17048_CRATE_REG = (ret, v)" and "ret < 0"
  shows "battery_get_property b POWER_SUPPLY_PROP_CURRENT_NOW val = (ret, val, after_transfer b)"
    and "battery_get_property b POWER_SUPPLY_PROP_TIME_TO_EMPTY_NOW val = (ret, val, after_transfer b)"
    and "battery_get_property b POWER_SUPPLY_PROP_TIME_TO_FULL_NOW val = (ret, val, after_transfer b)"
proof -
  have nz: "ret \<noteq> 0" using assms(2) by simp
  show "battery_get_property b POWER_SUPPLY_PROP_CURRENT_NOW val = (ret, val, after_transfer b)"
    using assms(2) by (simp add: battery_get_property_def get_current_err [OF assms(1) nz])
  show "battery_get_property b POWER_SUPPLY_PROP_TIME_TO_EMPTY_NOW val = (ret, val, after_transfer b)"
    using assms(2)
    by (simp add: battery_get_property_def get_time_to_empty_crate_err [OF assms(1) nz])
  show "battery_get_property b POWER_SUPPLY_PROP_TIME_TO_FULL_NOW val = (ret, val, after_transfer b)"
    using assms(2)
    by (simp add: battery_get_property_def get_time_to_full_crate_err [OF assms(1) nz])
qed

lemma property_soc_err:
  assumes "reply_at b 0 MAX17048_SOC_REG = (ret, v)" and "ret < 0"
  shows "battery_get_property b POWER_SUPPLY_PROP_CHARGE_NOW val = (ret, val, after_transfer b)"
    and "battery_get_property b POWER_SUPPLY_PROP_ENERGY_NOW val = (ret, val, after_transfer b)"
    and "battery_get_property b POWER_SUPPLY_PROP_CAPACITY val = (ret, val, after_transfer b)"
proof -
  have nz: "ret \<noteq> 0" using assms(2) by simp
  note soc = get_soc_err [OF assms(1) nz]
  show "battery_get_property b POWER_SUPPLY_PROP_CHARGE_NOW val = (ret, val, after_transfer b)"
    using assms(2) by (simp add: battery_get_property_def soc)
  show "battery_get_property b POWER_SUPPLY_PROP_ENERGY_NOW val = (ret, val, after_transfer b)"
    using assms(2) by (simp add: battery_get_property_def soc)
  show "battery_get_property b POWER_SUPPLY_PROP_CAPACITY val = (ret, val, after_transfer b)"
    using assms(2) by (simp add: battery_get_property_def soc)
qed

lemma property_tte_soc_err:
  assumes "reply_at b 0 MAX17048_CRATE_REG = read_ok c" and "sint c < - 10"
    and "reply_at b 1 MAX17048_SOC_REG = (ret, v)" and "ret < 0"
  shows "battery_get_property b POWER_SUPPLY_PROP_TIME_TO_EMPTY_NOW val
           = (ret, val, after_transfer (after_transfer b))"
  using assms(4) by (simp add: battery_get_property_def get_time_to_empty_soc_err [OF assms])

lemma property_ttf_soc_err:
  assumes "reply_at b 0 MAX17048_CRATE_REG = read_ok c" and "10 < sint c"
    and "reply_at b 1 MAX17048_SOC_REG = (ret, v)" and "ret < 0"
  shows "battery_get_property b POWER_SUPPLY_PROP_TIME_TO_FULL_NOW val
           = (ret, val, after_transfer (after_transfer b))"
  using assms(4) by (simp add: battery_get_property_def get_time_to_full_soc_err [OF assms])

lemma property_voltage_ok:
  assumes "reply_at b 0 MAX17048_VCELL_REG = read_ok raw"
  shows "battery_get_property b POWER_SUPPLY_PROP_VOLTAGE_NOW val
           = (0, Intval (uint raw * 625 div 8), after_transfer b)"
proof -
  have "0 \<le> uint raw * 625 div 8" by (simp add: pos_imp_zdiv_nonneg_iff)
  then show ?thesis
    by (simp add: battery_get_property_def get_vcell_ok [OF assms])
qed

text \<open>
  Claim C7. Let a transfer fail with a negative error number \<open>ret\<close>. If it is the rate
  transfer, then the current, the time to empty and the time to full fail with \<open>ret\<close>,
  in the functions themselves and through \<open>battery_get_property\<close>, which leaves the
  caller's value as it was. If the rate is read and the charge-percent transfer fails,
  the time to empty (rate below -10) and the time to full (rate above +10) fail with
  \<open>ret\<close>. If the charge-percent transfer fails, the charge now and the energy now fail
  with \<open>ret\<close>. And a voltage that has been read stays what it is when the rate transfer
  that follows fails: the voltage property returns 0 and the value, the current property
  after it returns \<open>ret\<close>.
\<close>

theorem transport_error_propagates:
  assumes "ret < 0"
  shows
    "(reply_at b 0 MAX17048_CRATE_REG = (ret, v) \<longrightarrow>
        fst (max17048_get_current b) = Inl ret
        \<and> fst (max17048_get_time_to_empty b) = Inl ret
        \<and> fst (max17048_get_time_to_full b) = Inl ret
        \<and> battery_get_property b POWER_SUPPLY_PROP_CURRENT_NOW val
            = (ret, val, after_transfer b)
        \<and> battery_get_property b POWER_SUPPLY_PROP_TIME_TO_EMPTY_NOW val
            = (ret, val, after_transfer b)
        \<and> battery_get_property b POWER_SUPPLY_PROP_TIME_TO_FULL_NOW val
            = (ret, val, after_transfer b))
     \<and> (reply_at b 0 MAX17048_CRATE_REG = read_ok c \<and> sint c < - 10
          \<and> reply_at b 1 MAX17048_SOC_REG = (ret, v) \<longrightarrow>
        fst (max17048_get_time_to_empty b) = Inl ret
        \<and> battery_get_property b POWER_SUPPLY_PROP_TIME_TO_EMPTY_NOW val
            = (ret, val, after_transfer (after_transfer b)))
     \<and> (reply_at b 0 MAX17048_CRATE_REG = read_ok c \<and> 10 < sint c
          \<and> reply_at b 1 MAX17048_SOC_REG = (ret, v) \<longrightarrow>
        fst (max17048_get_time_to_full b) = Inl ret
        \<and> battery_get_property b POWER_SUPPLY_PROP_TIME_TO_FULL_NOW val
            = (ret, val, after_transfer (after_transfer b)))
     \<and> (reply_at b 0 MAX17048_SOC_REG = (ret, v) \<longrightarrow>
        battery_get_property b POWER_SUPPLY_PROP_CHARGE_NOW val
            = (ret, val, after_transfer b)
        \<and> battery_get_property b POWER_SUPPLY_PROP_ENERGY_NOW val
            = (ret, val, after_transfer b))
     \<and> (reply_at b 0 MAX17048_VCELL_REG = read_ok raw
          \<and> reply_at b 1 MAX17048_CRATE_REG = (ret, v) \<longrightarrow>
        battery_get_property b POWER_SUPPLY_PROP_VOLTAGE_NOW val
            = (0, Intval (uint raw * 625 div 8), after_transfer b)
        \<and> battery_get_property (after_transfer b) POWER_SUPPLY_PROP_CURRENT_NOW val
            = (ret, val, after_transfer (after_transfer b)))"
proof -
  have nz: "ret \<noteq> 0" using assms by simp
  show ?thesis
  proof (intro conjI impI)
    assume a: "reply_at b 0 MAX17048_CRATE_REG = (ret, v)"
    show "fst (max17048_get_current b) = Inl ret"
      by (simp add: get_current_err [OF a nz])
    show "fst (max17048_get_time_to_empty b) = Inl ret"
      by (simp add: get_time_to_empty_crate_err [OF a nz])
    show "fst (max17048_get_time_to_full b) = Inl ret"
      by (simp add: get_time_to_full_crate_err [OF a nz])
    show "battery_get_property b POWER_SUPPLY_PROP_CURRENT_NOW val = (ret, val, after_transfer b)"
      by (rule property_crate_err [OF a assms])
    show "battery_get_property b POWER_SUPPLY_PROP_TIME_TO_EMPTY_NOW val
            = (ret, val, after_transfer b)"
      by (rule property_crate_err [OF a assms])
    show "battery_get_property b POWER_SUPPLY_PROP_TIME_TO_FULL_NOW val
            = (ret, val, after_transfer b)"
      by (rule property_crate_err [OF a assms])
  next
    assume a: "reply_at b 0 MAX17048_CRATE_REG = read_ok c \<and> sint c < - 10
          \<and> reply_at b 1 MAX17048_SOC_REG = (ret, v)"
    then show "fst (max17048_get_time_to_empty b) = Inl ret"
      using assms by (simp add: get_time_to_empty_soc_err)
    from a show "battery_get_property b POWER_SUPPLY_PROP_TIME_TO_EMPTY_NOW val
            = (ret, val, after_transfer (after_transfer b))"
      using assms by (simp add: property_tte_soc_err)
  next
    assume a: "reply_at b 0 MAX17048_CRATE_REG = read_ok c \<and> 10 < sint c
          \<and> reply_at b 1 MAX17048_SOC_REG = (ret, v)"
    then show "fst (max17048_get_time_to_full b) = Inl ret"
      using assms by (simp add: get_time_to_full_soc_err)
    from a show "battery_get_property b POWER_SUPPLY_PROP_TIME_TO_FULL_NOW val
            = (ret, val, after_transfer (after_transfer b))"
      using assms by (simp add: property_ttf_soc_err)
  next
    assume a: "reply_at b 0 MAX17048_SOC_REG = (ret, v)"
    show "battery_get_property b POWER_SUPPLY_PROP_CHARGE_NOW val = (ret, val, after_transfer b)"
      by (rule property_soc_err [OF a assms])
    show "battery_get_property b POWER_SUPPLY_PROP_ENERGY_NOW val = (ret, val, after_transfer b)"
      by (rule property_soc_err [OF a assms])
  next
    assume a: "reply_at b 0 MAX17048_VCELL_REG = read_ok raw
          \<and> reply_at b 1 MAX17048_CRATE_REG = (ret, v)"
    then show "battery_get_property b POWER_SUPPLY_PROP_VOLTAGE_NOW val
            = (0, Intval (uint raw * 625 div 8), after_transfer b)"
      by (simp add: property_voltage_ok)
    from a have "reply_at (after_transfer b) 0 MAX17048_CRATE_REG = (ret, v)"
      by (simp add: reply_at_after_transfer)
    then show "battery_get_property (after_transfer b) POWER_SUPPLY_PROP_CURRENT_NOW val
            = (ret, val, after_transfer (after_transfer b))"
      by (rule property_crate_err [OF _ assms])
  qed
qed


theorem transport_error_propagates_witness:
  "(- EIO < 0
    \<and> reply_at (gauge (read_ok 48000) (read_ok 12800) (- EIO, 0)) 0 MAX17048_CRATE_REG = (- EIO, 0)
    \<and> fst (max17048_get_current (gauge (read_ok 48000) (read_ok 12800) (- EIO, 0))) = Inl (- EIO)
    \<and> fst (max17048_get_time_to_empty (gauge (read_ok 48000) (read_ok 12800) (- EIO, 0)))
        = Inl (- EIO)
    \<and> fst (max17048_get_time_to_full (gauge (read_ok 48000) (read_ok 12800) (- EIO, 0)))
        = Inl (- EIO)
    \<and> fst (battery_get_property (gauge (read_ok 48000) (read_ok 12800) (- EIO, 0))
              POWER_SUPPLY_PROP_CURRENT_NOW (Intval 7)) = - EIO
    \<and> fst (snd (battery_get_property (gauge (read_ok 48000) (read_ok 12800) (- EIO, 0))
              POWER_SUPPLY_PROP_CURRENT_NOW (Intval 7))) = Intval 7)
   \<and> (reply_at (gauge (read_ok 48000) (- EIO, 0) (read_ok (- 20))) 0 MAX17048_CRATE_REG
          = read_ok (- 20)
    \<and> sint (- 20 :: 16 word) < - 10
    \<and> reply_at (gauge (read_ok 48000) (- EIO, 0) (read_ok (- 20))) 1 MAX17048_SOC_REG
          = (- EIO, 0)
    \<and> fst (max17048_get_time_to_empty (gauge (read_ok 48000) (- EIO, 0) (read_ok (- 20))))
          = Inl (- EIO))
   \<and> (reply_at (gauge (read_ok 48000) (- EIO, 0) (read_ok 20)) 0 MAX17048_CRATE_REG
          = read_ok 20
    \<and> 10 < sint (20 :: 16 word)
    \<and> reply_at (gauge (read_ok 48000) (- EIO, 0) (read_ok 20)) 1 MAX17048_SOC_REG
          = (- EIO, 0)
    \<and> fst (max17048_get_time_to_full (gauge (read_ok 48000) (- EIO, 0) (read_ok 20)))
          = Inl (- EIO))
   \<and> (reply_at (gauge (read_ok 48000) (- EIO, 0) (read_ok 20)) 0 MAX17048_SOC_REG = (- EIO, 0)
    \<and> fst (battery_get_property (gauge (read_ok 48000) (- EIO, 0) (read_ok 20))
              POWER_SUPPLY_PROP_CHARGE_NOW (Intval 7)) = - EIO
    \<and> fst (battery_get_property (gauge (read_ok 48000) (- EIO, 0) (read_ok 20))
              POWER_SUPPLY_PROP_ENERGY_NOW (Intval 7)) = - EIO)
   \<and> (reply_at (gauge (read_ok 48000) (read_ok 12800) (- EIO, 0)) 0 MAX17048_VCELL_REG
          = read_ok 48000
    \<and> reply_at (gauge (read_ok 48000) (read_ok 12800) (- EIO, 0)) 1 MAX17048_CRATE_REG
          = (- EIO, 0)
    \<and> fst (battery_get_property (gauge (read_ok 48000) (read_ok 12800) (- EIO, 0))
              POWER_SUPPLY_PROP_VOLTAGE_NOW (Intval 7)) = 0
    \<and> fst (snd (battery_get_property (gauge (read_ok 48000) (read_ok 12800) (- EIO, 0))
              POWER_SUPPLY_PROP_VOLTAGE_NOW (Intval 7))) = Intval 3750000
    \<and> fst (battery_get_property (after_transfer (gauge (read_ok 48000) (read_ok 12800) (- EIO, 0)))
              POWER_SUPPLY_PROP_CURRENT_NOW (Intval 7)) = - EIO)"
  using transport_error_propagates
          [of "- EIO" "gauge (read_ok 48000) (read_ok 12800) (- EIO, 0)" 0 "Intval 7" 0 48000]
        transport_error_propagates
          [of "- EIO" "gauge (read_ok 48000) (- EIO, 0) (read_ok (- 20))" 0 "Intval 7" "- 20" 0]
        transport_error_propagates
          [of "- EIO" "gauge (read_ok 48000) (- EIO, 0) (read_ok 20)" 0 "Intval 7" 20 0]
  by (simp add: gauge_reply EIO_def)


subsection \<open>Design capacity and design energy after probe\<close>

lemma read_charge_design_explicit:
  assumes "props ''charge-full-design-microamp-hours'' = Some x"
  shows "charge_full_design_uah (max17048_read_charge_design props z) =
           (if x > 10000000 then 10000000 else if x = 0 then 5000000 else x)"
  using assms
  by (simp add: max17048_read_charge_design_def device_property_read_u32_def Let_def
        max17048_consts)

lemma read_charge_design_fallback:
  assumes "props ''charge-full-design-microamp-hours'' = None"
    and "charge_full_design_uah z = 0"
  shows "charge_full_design_uah (max17048_read_charge_design props z) =
           (case props ''battery-capacity'' of
              Some m \<Rightarrow> if 0 < m \<and> m < 20000
                        then (if m * 1000 = 0 then 5000000 else m * 1000) else 5000000
            | None \<Rightarrow> 5000000)"
  using assms
  by (simp add: max17048_read_charge_design_def device_property_read_u32_def Let_def
        max17048_consts EINVAL_def split: option.splits)

lemma read_charge_design_energy:
  "energy_full_design_uwh (max17048_read_charge_design props z) = energy_full_design_uwh z"
  by (simp add: max17048_read_charge_design_def device_property_read_u32_def Let_def
        split: option.splits)

lemma read_energy_design_charge:
  "charge_full_design_uah (max17048_read_energy_design props z) = charge_full_design_uah z"
  by (simp add: max17048_read_energy_design_def device_property_read_u32_def Let_def
        split: option.splits)

lemma read_energy_design_energy:
  "energy_full_design_uwh (max17048_read_energy_design props z) =
    (let e = (case props ''energy-full-design-microwatt-hours'' of
                Some w \<Rightarrow> if w = 0 then derived_energy (charge_full_design_uah z) else w
              | None \<Rightarrow> derived_energy (charge_full_design_uah z))
     in if e > 18500000 then 18500000 else e)"
  by (simp add: max17048_read_energy_design_def device_property_read_u32_def Let_def EINVAL_def
        max17048_consts derived_energy_def split: option.splits)

lemma uint_nonzero: "uint (w :: 32 word) \<noteq> 0 \<longleftrightarrow> 1 \<le> uint w"
  using uint_ge_0 [of w] by linarith

lemma word_nonzero: "(w :: 32 word) \<noteq> 0 \<longleftrightarrow> 1 \<le> uint w"
  using uint_nonzero [of w] by (simp add: uint_0_iff)

lemma legacy_product:
  assumes "(m :: 32 word) < 20000"
  shows "uint (m * 1000) = uint m * 1000"
proof -
  have "uint m < 20000" using assms by (simp add: word_less_def)
  then show ?thesis
    by (simp add: uint_word_ariths take_bit_eq_mod)
qed

lemma derived_energy_uint:
  assumes "uint c \<le> 19999000"
  shows "uint (derived_energy c) = uint c * 37 div 10"
proof -
  have c64: "uint (ucast c :: 64 word) = uint c"
    by (simp add: uint_up_ucast is_up)
  have p: "uint ((ucast c :: 64 word) * 37) = uint c * 37"
    using assms by (simp add: uint_word_ariths c64 take_bit_eq_mod)
  have ten: "uint (ucast (10 :: 32 word) :: 64 word) = 10" by simp
  have q: "uint (div_u64 (ucast c * 37) 10) = uint c * 37 div 10"
    by (simp add: div_u64_def uint_div p)
  have "uint c * 37 div 10 \<le> 19999000 * 37 div 10"
    using assms by (intro zdiv_mono1) simp_all
  then have small: "uint c * 37 div 10 < 4294967296" by simp
  have "uint (ucast (div_u64 (ucast c * 37) 10) :: 32 word)
          = uint (div_u64 (ucast c * 37) 10) mod 4294967296"
    by (simp add: unsigned_ucast_eq take_bit_eq_mod)
  also have "\<dots> = uint c * 37 div 10"
    using small by (simp add: q pos_imp_zdiv_nonneg_iff)
  finally show ?thesis by (simp add: derived_energy_def)
qed

lemma legacy_accepted:
  assumes "0 < uint (m :: 32 word)" and "uint m < 20000"
  shows "0 < m \<and> m < 20000 \<and> m * 1000 \<noteq> 0 \<and> uint (m * 1000) = uint m * 1000"
proof -
  have lt: "m < 20000" using assms by (simp add: word_less_def)
  have pos: "0 < m" using assms by (simp add: word_less_def)
  have u: "uint (m * 1000) = uint m * 1000" by (rule legacy_product [OF lt])
  have "uint (m * 1000) \<noteq> 0" using assms u by simp
  then have "m * 1000 \<noteq> 0" by auto
  then show ?thesis using lt pos u by simp
qed

lemma read_charge_design_from_explicit:
  assumes "props ''charge-full-design-microamp-hours'' = Some x"
  shows "uint (charge_full_design_uah (max17048_read_charge_design props z))
           = (if uint x = 0 then 5000000 else min 10000000 (uint x))"
  using assms read_charge_design_explicit [of props x z]
  by (simp add: word_less_def uint_0_iff [symmetric] del: uint_0_iff)

lemma read_charge_design_from_legacy:
  assumes "props ''charge-full-design-microamp-hours'' = None"
    and "charge_full_design_uah z = 0"
    and "props ''battery-capacity'' = Some m" and "0 < uint m" and "uint m < 20000"
  shows "uint (charge_full_design_uah (max17048_read_charge_design props z)) = uint m * 1000"
  using legacy_accepted [OF assms(4,5)] assms(1,2,3)
    read_charge_design_fallback [of props z]
  by simp

lemma read_charge_design_from_default:
  assumes "props ''charge-full-design-microamp-hours'' = None"
    and "charge_full_design_uah z = 0"
    and "props ''battery-capacity'' = None
         \<or> props ''battery-capacity'' = Some m \<and> (uint m = 0 \<or> 20000 \<le> uint m)"
  shows "uint (charge_full_design_uah (max17048_read_charge_design props z)) = 5000000"
  using assms read_charge_design_fallback [of props z]
  by (auto simp add: word_less_def)

lemma read_charge_design_range:
  assumes "charge_full_design_uah z = 0"
  shows "1 \<le> uint (charge_full_design_uah (max17048_read_charge_design props z))
         \<and> uint (charge_full_design_uah (max17048_read_charge_design props z)) \<le> 19999000"
proof (cases "props ''charge-full-design-microamp-hours''")
  case (Some x)
  have "uint (charge_full_design_uah (max17048_read_charge_design props z))
           = (if uint x = 0 then 5000000 else min 10000000 (uint x))"
    using Some by (rule read_charge_design_from_explicit [of props x z])
  then show ?thesis
    using uint_nonzero [of x] by (cases "uint x = 0") auto
next
  case None
  show ?thesis
  proof (cases "props ''battery-capacity''")
    case absent: None
    then show ?thesis
      using None assms read_charge_design_from_default [of props z 0] by simp
  next
    case (Some m)
    show ?thesis
    proof (cases "0 < uint m \<and> uint m < 20000")
      case True
      then show ?thesis
        using None assms Some read_charge_design_from_legacy [of props z m] by simp
    next
      case False
      then have "uint m = 0 \<or> 20000 \<le> uint m"
        using uint_ge_0 [of m] by linarith
      then show ?thesis
        using None assms Some read_charge_design_from_default [of props z m] by simp
    qed
  qed
qed

lemma read_energy_design_range:
  assumes "1 \<le> uint (charge_full_design_uah z)"
    and "uint (charge_full_design_uah z) \<le> 19999000"
  shows "1 \<le> uint (energy_full_design_uwh (max17048_read_energy_design props z))
         \<and> uint (energy_full_design_uwh (max17048_read_energy_design props z)) \<le> 18500000"
proof -
  let ?c = "charge_full_design_uah z"
  have de: "uint (derived_energy ?c) = uint ?c * 37 div 10"
    by (rule derived_energy_uint [OF assms(2)])
  have "1 * 37 div 10 \<le> uint ?c * 37 div 10"
    using assms(1) by (intro zdiv_mono1) simp_all
  then have dpos: "1 \<le> uint (derived_energy ?c)" by (simp add: de)
  have clamp: "1 \<le> uint e \<Longrightarrow>
      1 \<le> uint (if e > 18500000 then 18500000 else e)
      \<and> uint (if e > 18500000 then 18500000 else e) \<le> 18500000" for e :: "32 word"
    by (simp add: word_less_def)
  show ?thesis
  proof (cases "props ''energy-full-design-microwatt-hours''")
    case None
    then show ?thesis
      using clamp [OF dpos] by (simp add: read_energy_design_energy Let_def)
  next
    case (Some w)
    show ?thesis
    proof (cases "w = 0")
      case True
      then show ?thesis
        using clamp [OF dpos] Some by (simp add: read_energy_design_energy Let_def)
    next
      case False
      then have "1 \<le> uint w" by (simp add: word_nonzero)
      from clamp [OF this] show ?thesis
        using Some False by (simp add: read_energy_design_energy Let_def)
    qed
  qed
qed

lemma probe_design:
  assumes "max17048_probe env = Inr drv"
  obtains z where "charge_full_design_uah z = 0"
    "charge_full_design_uah drv
       = charge_full_design_uah (max17048_read_charge_design (properties env) z)"
    "energy_full_design_uwh drv
       = energy_full_design_uwh
           (max17048_read_energy_design (properties env)
              (max17048_read_charge_design (properties env) z))"
proof (cases "devm_regmap_init_i2c env")
  case (Inl err)
  with assms show ?thesis
    by (simp add: max17048_probe_def split: if_splits)
next
  case (Inr m)
  let ?z = "\<lparr>regmap = m, charge_full_design_uah = 0, energy_full_design_uwh = 0, delay = 0\<rparr>"
  let ?d = "max17048_read_properties (properties env) ?z"
  from assms Inr have "drv = ?d\<lparr>delay := msecs_to_jiffies env 300000\<rparr>
                      \<or> drv = ?d\<lparr>delay := msecs_to_jiffies env 30000\<rparr>"
    by (simp add: max17048_probe_def Let_def split: if_splits option.splits)
  then have "charge_full_design_uah drv = charge_full_design_uah ?d"
    and "energy_full_design_uwh drv = energy_full_design_uwh ?d"
    by auto
  then show ?thesis
    by (intro that [of ?z])
       (simp_all add: max17048_read_properties_def read_energy_design_charge)
qed

text \<open>
  Claim C1, as the code has it. After a probe that completes, the design capacity is
  at least 1 uAh and the design energy lies between 1 and 18,500,000 uWh, whatever
  supplied them. The design capacity is at most 10,000,000 uAh when it comes from the
  explicit property (clamped; 0 gives the default) or from the default of 5,000,000.
  When the explicit property cannot be read and the legacy property holds a value
  between 1 and 19,999 mAh, the capacity is that value times 1000 and is not clamped, so
  the capacity is at most 19,999,000 uAh overall. An explicit 15,000,000 uAh becomes
  10,000,000 uAh with 18,500,000 uWh.
\<close>

theorem probe_design_ranges:
  assumes "probed_design env = Inr (c, e)"
  shows "1 \<le> c \<and> c \<le> 19999000 \<and> 1 \<le> e \<and> e \<le> 18500000
     \<and> (properties env ''charge-full-design-microamp-hours'' = Some x
          \<longrightarrow> c = (if uint x = 0 then 5000000 else min 10000000 (uint x)))
     \<and> (properties env ''charge-full-design-microamp-hours'' = None
          \<and> properties env ''battery-capacity'' = Some m \<and> 0 < uint m \<and> uint m < 20000
          \<longrightarrow> c = uint m * 1000)
     \<and> (properties env ''charge-full-design-microamp-hours'' = None
          \<and> (properties env ''battery-capacity'' = None
              \<or> properties env ''battery-capacity'' = Some m \<and> (uint m = 0 \<or> 20000 \<le> uint m))
          \<longrightarrow> c = 5000000)"
proof -
  from assms obtain drv where drv: "max17048_probe env = Inr drv"
    and c: "c = uint (charge_full_design_uah drv)"
    and e: "e = uint (energy_full_design_uwh drv)"
    by (auto simp add: probed_design_def split: sum.splits)
  from probe_design [OF drv] obtain z where z: "charge_full_design_uah z = 0"
    and cr: "charge_full_design_uah drv
       = charge_full_design_uah (max17048_read_charge_design (properties env) z)"
    and er: "energy_full_design_uwh drv
       = energy_full_design_uwh
           (max17048_read_energy_design (properties env)
              (max17048_read_charge_design (properties env) z))"
    by blast
  have crange: "1 \<le> c \<and> c \<le> 19999000"
    unfolding c cr by (rule read_charge_design_range [OF z])
  then have erange: "1 \<le> e \<and> e \<le> 18500000"
    unfolding c cr e er by (intro read_energy_design_range) simp_all
  have "properties env ''charge-full-design-microamp-hours'' = Some x
          \<longrightarrow> c = (if uint x = 0 then 5000000 else min 10000000 (uint x))"
    unfolding c cr using read_charge_design_from_explicit [of "properties env" x z] by blast
  moreover have "properties env ''charge-full-design-microamp-hours'' = None
          \<and> properties env ''battery-capacity'' = Some m \<and> 0 < uint m \<and> uint m < 20000
          \<longrightarrow> c = uint m * 1000"
    unfolding c cr using read_charge_design_from_legacy [of "properties env" z m] z by blast
  moreover have "properties env ''charge-full-design-microamp-hours'' = None
          \<and> (properties env ''battery-capacity'' = None
              \<or> properties env ''battery-capacity'' = Some m \<and> (uint m = 0 \<or> 20000 \<le> uint m))
          \<longrightarrow> c = 5000000"
    unfolding c cr using read_charge_design_from_default [of "properties env" z m] z by blast
  ultimately show ?thesis using crange erange by blast
qed

lemmas probe_eval =
  probed_design_def board_def max17048_probe_def max17048_read_properties_def
  max17048_read_charge_design_def max17048_read_energy_design_def
  device_property_read_u32_def div_u64_def Let_def max17048_consts EINVAL_def


theorem probe_design_ranges_witness:
  "probed_design (board [''charge-full-design-microamp-hours'' \<mapsto> 15000000])
      = Inr (10000000, 18500000)
   \<and> properties (board [''charge-full-design-microamp-hours'' \<mapsto> 15000000])
        ''charge-full-design-microamp-hours'' = Some 15000000
   \<and> probed_design (board [''battery-capacity'' \<mapsto> 3000]) = Inr (3000000, 11100000)
   \<and> properties (board [''battery-capacity'' \<mapsto> 3000]) ''charge-full-design-microamp-hours'' = None
   \<and> properties (board [''battery-capacity'' \<mapsto> 3000]) ''battery-capacity'' = Some 3000
   \<and> 0 < uint (3000 :: 32 word) \<and> uint (3000 :: 32 word) < 20000
   \<and> probed_design (board Map.empty) = Inr (5000000, 18500000)
   \<and> properties (board Map.empty) ''charge-full-design-microamp-hours'' = None
   \<and> properties (board Map.empty) ''battery-capacity'' = None"
  using probe_design_ranges
          [of "board [''charge-full-design-microamp-hours'' \<mapsto> 15000000]" 10000000 18500000
              15000000 0]
        probe_design_ranges [of "board [''battery-capacity'' \<mapsto> 3000]" 3000000 11100000 0 3000]
        probe_design_ranges [of "board Map.empty" 5000000 18500000 0 0]
  by (simp add: probe_eval)


text \<open>
  Claim C1 as stated fails on the legacy path: with no explicit property and a legacy
  capacity of 15,000 mAh the probe leaves 15,000,000 uAh, above 10,000,000.
\<close>

theorem probe_legacy_unclamped_counterexample:
  "probed_design (board [''battery-capacity'' \<mapsto> 15000]) = Inr (15000000, 18500000)
   \<and> \<not> (15000000 :: int) \<le> 10000000"
  by (simp add: probe_eval)


end
